theory Spec2Isabelle
  imports Complex_Main "HOL-Library.Product_Lexorder"
begin

text \<open>
  The query orchestration engine of MobiAdvisor, a phone shopping assistant: the query
  processor (\<open>process\<close> and the functions it calls), the generation client
  (\<open>parseIntent\<close>, \<open>generateSQL\<close>, \<open>summarize\<close>), the vector client's typo matcher
  (\<open>findSimilar\<close>, \<open>stringSimilarity\<close>, \<open>levenshteinDistance\<close>) and the catalog accessor
  (\<open>getFilteredPhones\<close>), embedded as functions of higher-order logic, followed by the
  properties of the engine's specification that hold of them.
\<close>

section \<open>Strings and numbers of the source language\<close>

text \<open>
  A JavaScript string is modelled as a \<open>string\<close>, one \<open>char\<close> per UTF-16 code unit, for
  messages of the ASCII range: the case conversions below are the ones JavaScript applies
  there, and every other character is left as it is; \<open>of_char\<close> reads the code unit, and
  the whitespace class is the one of JavaScript on the code units below 256.
  A JavaScript number is modelled as a \<open>rat\<close>: comparisons, \<open>Math.max\<close>, sums and
  differences of the finite numbers the catalog holds are exact there; \<open>NaN\<close> and the
  infinities are outside the model. An optional field is an \<open>option\<close>.
\<close>

definition toLowerChar :: "char \<Rightarrow> char" where
  "toLowerChar c =
     (if 65 \<le> (of_char c :: nat) \<and> (of_char c :: nat) \<le> 90
      then char_of ((of_char c :: nat) + 32) else c)"

definition toUpperChar :: "char \<Rightarrow> char" where
  "toUpperChar c =
     (if 97 \<le> (of_char c :: nat) \<and> (of_char c :: nat) \<le> 122
      then char_of ((of_char c :: nat) - 32) else c)"

definition toLowerCase :: "string \<Rightarrow> string" where
  "toLowerCase s = map toLowerChar s"

definition toUpperCase :: "string \<Rightarrow> string" where
  "toUpperCase s = map toUpperChar s"

fun startsWith :: "string \<Rightarrow> string \<Rightarrow> bool" where
  "startsWith s [] = True"
| "startsWith [] (p # ps) = False"
| "startsWith (c # cs) (p # ps) = (c = p \<and> startsWith cs ps)"

definition endsWith :: "string \<Rightarrow> string \<Rightarrow> bool" where
  "endsWith s p = startsWith (rev s) (rev p)"

text \<open>\<open>s.includes(sub)\<close>: \<open>sub\<close> occurs in \<open>s\<close> as a contiguous run.\<close>

fun includesStr :: "string \<Rightarrow> string \<Rightarrow> bool" where
  "includesStr [] sub = (sub = [])"
| "includesStr (c # cs) sub = (startsWith (c # cs) sub \<or> includesStr cs sub)"

text \<open>
  The class \<open>\s\<close> (and what \<open>trim\<close> removes) among the code units below 256: tab, line
  feed, vertical tab, form feed, carriage return, space and the no-break space U+00A0.
\<close>

definition isSpace :: "char \<Rightarrow> bool" where
  "isSpace c = ((of_char c :: nat) \<in> {9, 10, 11, 12, 13, 32, 160})"

definition isDigit :: "char \<Rightarrow> bool" where
  "isDigit c = (48 \<le> (of_char c :: nat) \<and> (of_char c :: nat) \<le> 57)"

definition trim :: "string \<Rightarrow> string" where
  "trim s = rev (dropWhile isSpace (rev (dropWhile isSpace s)))"

text \<open>
  \<open>s.split(/\s+/)\<close>: the pieces between maximal runs of whitespace; a string that starts
  (or ends) with whitespace gets an empty first (or last) piece. \<open>splitWs cur sep s\<close> scans
  \<open>s\<close> with the piece read so far in \<open>cur\<close>; \<open>sep\<close> says that the scan is inside a
  run of whitespace.
\<close>

fun splitWs :: "string \<Rightarrow> bool \<Rightarrow> string \<Rightarrow> string list" where
  "splitWs cur sep [] = [cur]"
| "splitWs cur sep (c # cs) =
     (if isSpace c then (if sep then splitWs cur True cs else cur # splitWs [] True cs)
      else splitWs (cur @ [c]) False cs)"

definition splitWhitespace :: "string \<Rightarrow> string list" where
  "splitWhitespace s = splitWs [] False s"

text \<open>Truthiness of an optional number (\<open>undefined\<close> and \<open>0\<close> are falsy) and string.\<close>

definition truthyNum :: "rat option \<Rightarrow> bool" where
  "truthyNum x = (case x of None \<Rightarrow> False | Some v \<Rightarrow> v \<noteq> 0)"

definition truthyStr :: "string option \<Rightarrow> bool" where
  "truthyStr x = (case x of None \<Rightarrow> False | Some s \<Rightarrow> s \<noteq> [])"

section \<open>The fallback matcher: edit distance and similarity\<close>

text \<open>
  \<open>costs[j] = v\<close> on the JavaScript array: an update in range, an append at the end
  (the loop below never writes further out).
\<close>

definition set_at :: "nat list \<Rightarrow> nat \<Rightarrow> nat \<Rightarrow> nat list" where
  "set_at costs j v = (if j < length costs then costs[j := v] else costs @ [v])"

text \<open>The body of the inner loop of \<open>levenshteinDistance\<close>, on the state \<open>(costs, lastValue)\<close>.\<close>

definition lev_inner :: "string \<Rightarrow> string \<Rightarrow> nat \<Rightarrow> nat \<Rightarrow> nat list \<times> nat \<Rightarrow> nat list \<times> nat" where
  "lev_inner s1 s2 i j st =
     (case st of (costs, lastValue) \<Rightarrow>
        if i = 0 then (set_at costs j j, lastValue)
        else if 0 < j then
          (let newValue = costs ! (j - 1);
               newValue' = (if s1 ! (i - 1) \<noteq> s2 ! (j - 1)
                            then min (min newValue lastValue) (costs ! j) + 1
                            else newValue)
           in (set_at costs (j - 1) lastValue, newValue'))
        else (costs, lastValue))"

text \<open>One round of the outer loop: \<open>lastValue = i\<close>, the inner loop, the last cell.\<close>

definition lev_outer :: "string \<Rightarrow> string \<Rightarrow> nat \<Rightarrow> nat list \<Rightarrow> nat list" where
  "lev_outer s1 s2 i costs =
     (case fold (lev_inner s1 s2 i) [0..<Suc (length s2)] (costs, i) of
        (costs', lastValue) \<Rightarrow>
          if 0 < i then set_at costs' (length s2) lastValue else costs')"

definition levenshteinDistance :: "string \<Rightarrow> string \<Rightarrow> nat" where
  "levenshteinDistance s1 s2 =
     fold (lev_outer s1 s2) [0..<Suc (length s1)] [] ! (length s2)"

definition stringSimilarity :: "string \<Rightarrow> string \<Rightarrow> rat" where
  "stringSimilarity s1 s2 =
     (let longer = (if length s1 > length s2 then s1 else s2);
          shorter = (if length s1 > length s2 then s2 else s1)
      in if length longer = 0 then 1
         else (of_nat (length longer) - of_nat (levenshteinDistance longer shorter))
              / of_nat (length longer))"

text \<open>
  The edit-distance table the loop fills: \<open>lev_table s1 s2 i j\<close> is the distance between
  the first \<open>i\<close> characters of \<open>s1\<close> and the first \<open>j\<close> characters of \<open>s2\<close>.
\<close>

fun lev_table :: "string \<Rightarrow> string \<Rightarrow> nat \<Rightarrow> nat \<Rightarrow> nat" where
  "lev_table s1 s2 0 j = j"
| "lev_table s1 s2 (Suc i) 0 = Suc i"
| "lev_table s1 s2 (Suc i) (Suc j) =
     (if s1 ! i \<noteq> s2 ! j
      then min (min (lev_table s1 s2 i j) (lev_table s1 s2 (Suc i) j)) (lev_table s1 s2 i (Suc j)) + 1
      else lev_table s1 s2 i j)"

section \<open>Data model\<close>

record phone =
  phone_id :: rat
  company_name :: string
  model_name :: string
  processor :: string
  launched_year :: rat
  user_rating :: rat
  user_review :: string
  camera_rating :: rat
  battery_rating :: rat
  design_rating :: rat
  display_rating :: rat
  performance_rating :: rat
  memory_gb :: rat
  weight_g :: rat
  ram_gb :: rat
  front_camera_mp :: rat
  back_camera_mp :: rat
  battery_mah :: rat
  price_inr :: rat
  screen_size :: rat

record filters =
  company :: "string option"
  minPrice :: "rat option"
  maxPrice :: "rat option"
  minCamera :: "rat option"
  maxCamera :: "rat option"
  minBattery :: "rat option"
  maxBattery :: "rat option"
  minRam :: "rat option"
  maxRam :: "rat option"
  minStorage :: "rat option"
  maxStorage :: "rat option"

definition noFilters :: filters where
  "noFilters = \<lparr>company = None, minPrice = None, maxPrice = None, minCamera = None,
     maxCamera = None, minBattery = None, maxBattery = None, minRam = None, maxRam = None,
     minStorage = None, maxStorage = None\<rparr>"

datatype task = Query | General_qa | Reject

datatype comparison = Single | Multi | Range

text \<open>
  The fields \<open>company\<close> and \<open>model\<close> of \<open>ParsedIntent.entities\<close> are \<open>companyE\<close> and
  \<open>modelE\<close> here (\<open>company\<close> is the field of \<open>Filters\<close>).
\<close>

record entities =
  companyE :: "string list option"
  modelE :: "string list option"
  price_range :: "(rat option \<times> rat option) option"
  features :: "string list option"

record constraints =
  min_price :: "rat option"
  max_price :: "rat option"
  min_ram :: "rat option"
  max_ram :: "rat option"
  min_battery :: "rat option"
  max_battery :: "rat option"
  min_camera :: "rat option"
  max_camera :: "rat option"
  min_storage :: "rat option"
  max_storage :: "rat option"

definition noEntities :: entities where
  "noEntities = \<lparr>companyE = None, modelE = None, price_range = None, features = None\<rparr>"

definition noConstraints :: constraints where
  "noConstraints = \<lparr>min_price = None, max_price = None, min_ram = None, max_ram = None,
     min_battery = None, max_battery = None, min_camera = None, max_camera = None,
     min_storage = None, max_storage = None\<rparr>"

text \<open>
  The code reads \<open>intent.entities?.company\<close> and \<open>intent.constraints || {}\<close>: both objects
  may be missing from what the generation service sent, so both are optional here.
\<close>

record parsed_intent =
  task :: task
  entities :: "entities option"
  constraints :: "constraints option"
  priority_features :: "string list option"
  comparison_type :: "comparison option"

datatype role = User | Assistant

text \<open>\<open>ChatHistoryMessage\<close>; its field \<open>phones\<close> is \<open>phonesH\<close> here.\<close>

record chat_history_message =
  role :: role
  content :: string
  phonesH :: "phone list option"

record chat_response =
  message :: string
  phones :: "phone list option"
  error :: "string option"
  warning :: "string option"

datatype vtype = Company | Model

datatype vid = CompanyId string | ModelId rat | IndexId string

text \<open>\<open>VectorSearchResult\<close>, the \<open>metadata\<close> object flattened into \<open>m_type\<close>, \<open>m_value\<close>, \<open>m_company\<close>.\<close>

record vector_search_result =
  vid :: vid
  score :: rat
  m_type :: vtype
  m_value :: string
  m_company :: "string option"

section \<open>Effects: failure and the outside world\<close>

text \<open>
  What a \<open>throw\<close> carries: an \<open>Error\<close> object with its message, or any other value.
  An asynchronous function is a function of the state of the outside world \<open>'w\<close> (the
  generation service, the similarity index, the catalog store) that returns either what
  was thrown or its result, with the world after the call. The world is a type variable:
  a service may answer differently at every call.
\<close>

datatype exn = Error string | Thrown

type_synonym ('a, 'w) io = "'w \<Rightarrow> (exn + 'a) \<times> 'w"

definition returnE :: "'a \<Rightarrow> ('a, 'w) io" where
  "returnE x = (\<lambda>w. (Inr x, w))"

definition throwE :: "exn \<Rightarrow> ('a, 'w) io" where
  "throwE e = (\<lambda>w. (Inl e, w))"

definition bindE :: "('a, 'w) io \<Rightarrow> ('a \<Rightarrow> ('b, 'w) io) \<Rightarrow> ('b, 'w) io" where
  "bindE m f = (\<lambda>w. case m w of (Inl e, w') \<Rightarrow> (Inl e, w') | (Inr x, w') \<Rightarrow> f x w')"

text \<open>\<open>try { m } catch (e) { h e }\<close>\<close>

definition catchE :: "('a, 'w) io \<Rightarrow> (exn \<Rightarrow> ('a, 'w) io) \<Rightarrow> ('a, 'w) io" where
  "catchE m h = (\<lambda>w. case m w of (Inl e, w') \<Rightarrow> h e w' | (Inr x, w') \<Rightarrow> (Inr x, w'))"

section \<open>The catalog accessor\<close>

text \<open>
  The statements the program sends to the store, each with its parameters bound:
  \<^item> \<open>FilteredSelect cs\<close>: \<open>SELECT * FROM phones WHERE 1=1\<close>, one \<open>AND\<close> per condition of
    \<open>cs\<close>, \<open>ORDER BY user_rating DESC, price_inr ASC LIMIT 50\<close>;
  \<^item> \<open>ModelLike p\<close>: \<open>WHERE LOWER(model_name) LIKE LOWER(p) ORDER BY user_rating DESC LIMIT 1\<close>;
  \<^item> \<open>CompanyModelLike c p\<close>: \<open>WHERE LOWER(company_name) LIKE LOWER(c) AND LOWER(model_name)
    LIKE LOWER(p) ORDER BY user_rating DESC LIMIT 1\<close>;
  \<^item> \<open>CompanyLike c\<close>: \<open>WHERE LOWER(company_name) LIKE LOWER(c) ORDER BY user_rating DESC,
    price_inr ASC LIMIT 3\<close>;
  \<^item> \<open>GeneratedSQL t\<close>: the text the generation service wrote.
\<close>

datatype num_column = Price_inr | Back_camera_mp | Battery_mah | Ram_gb | Memory_gb

datatype cond = CompanyEq string | Ge num_column rat | Le num_column rat

datatype statement =
    FilteredSelect "cond list"
  | ModelLike string
  | CompanyModelLike string string
  | CompanyLike string
  | GeneratedSQL string

text \<open>
  The store, as the program reaches it: \<open>queryPhones\<close> may throw (\<open>getDatabase\<close> throws
  when the store is not configured), as may \<open>getCompanies\<close> and \<open>searchPhonesByModel\<close>.
\<close>

record 'w catalog =
  queryPhones :: "statement \<Rightarrow> (phone list, 'w) io"
  getCompanies :: "(string list, 'w) io"
  searchPhonesByModel :: "string \<Rightarrow> (phone list, 'w) io"

definition optCond :: "'a option \<Rightarrow> ('a \<Rightarrow> cond) \<Rightarrow> cond list" where
  "optCond x mk = (case x of None \<Rightarrow> [] | Some v \<Rightarrow> [mk v])"

text \<open>The conditions \<open>getFilteredPhones\<close> appends, in its order.\<close>

definition filterConds :: "filters \<Rightarrow> cond list" where
  "filterConds f =
     (if truthyStr (company f) then [CompanyEq (the (company f))] else [])
     @ optCond (minPrice f) (Ge Price_inr)
     @ optCond (maxPrice f) (Le Price_inr)
     @ optCond (minCamera f) (Ge Back_camera_mp)
     @ optCond (maxCamera f) (Le Back_camera_mp)
     @ optCond (minBattery f) (Ge Battery_mah)
     @ optCond (maxBattery f) (Le Battery_mah)
     @ optCond (minRam f) (Ge Ram_gb)
     @ optCond (maxRam f) (Le Ram_gb)
     @ optCond (minStorage f) (Ge Memory_gb)
     @ optCond (maxStorage f) (Le Memory_gb)"

definition getFilteredPhones :: "'w catalog \<Rightarrow> filters \<Rightarrow> (phone list, 'w) io" where
  "getFilteredPhones cat f = queryPhones cat (FilteredSelect (filterConds f))"

text \<open>
  What the store answers to a \<open>FilteredSelect\<close> over a table of rows, as SQL reads the
  statement: the rows that meet every condition (\<open>LOWER\<close> folds the ASCII letters),
  ordered by rating descending then price ascending, the first 50. Rows that agree on
  both keys keep their table order here; SQL leaves their order open.
\<close>

definition numColumn :: "num_column \<Rightarrow> phone \<Rightarrow> rat" where
  "numColumn c p =
     (case c of Price_inr \<Rightarrow> price_inr p | Back_camera_mp \<Rightarrow> back_camera_mp p
      | Battery_mah \<Rightarrow> battery_mah p | Ram_gb \<Rightarrow> ram_gb p | Memory_gb \<Rightarrow> memory_gb p)"

fun holds :: "cond \<Rightarrow> phone \<Rightarrow> bool" where
  "holds (CompanyEq s) p = (toLowerCase (company_name p) = toLowerCase s)"
| "holds (Ge c v) p = (numColumn c p \<ge> v)"
| "holds (Le c v) p = (numColumn c p \<le> v)"

definition orderKey :: "phone \<Rightarrow> rat \<times> rat" where
  "orderKey p = (- user_rating p, price_inr p)"

definition selectFiltered :: "phone list \<Rightarrow> cond list \<Rightarrow> phone list" where
  "selectFiltered table cs =
     take 50 (sort_key orderKey (filter (\<lambda>p. list_all (\<lambda>c. holds c p) cs) table))"

section \<open>The generation client\<close>

text \<open>
  A prompt is a template of \<open>prompts.ts\<close> with its holes filled; the templates' wording
  plays no part below, so a prompt is the template's name with what fills it.
\<close>

datatype prompt =
    IntentPrompt string
  | SqlPrompt parsed_intent filters
  | SummaryPrompt string "phone list"
  | GeneralPrompt string

text \<open>
  \<open>generateContent\<close> is the call to the generation service (it may throw, and returns the
  reply's text); \<open>JSON_parse\<close> is \<open>JSON.parse\<close> read at the type \<open>ParsedIntent\<close>: either the
  \<open>SyntaxError\<close> it throws or the intent the text denotes.
\<close>

record 'w generation =
  generateContent :: "prompt \<Rightarrow> (role \<times> string) list \<Rightarrow> bool \<Rightarrow> (string, 'w) io"
  JSON_parse :: "string \<Rightarrow> exn + parsed_intent"

text \<open>\<open>history.slice(-4).map(h => ({role, content}))\<close>\<close>

definition contextHistory :: "chat_history_message list \<Rightarrow> (role \<times> string) list" where
  "contextHistory history =
     map (\<lambda>h. (role h, content h)) (drop (length history - 4) history)"

definition fence :: string where
  "fence = [CHR 0x60, CHR 0x60, CHR 0x60]"

text \<open>
  The cleaning of a reply, shared by \<open>parseIntent\<close> (\<open>tag = json\<close>) and \<open>generateSQL\<close>
  (\<open>tag = sql\<close>): trim, drop an opening fence with the tag, drop an opening fence, drop a
  closing fence, trim.
\<close>

definition stripFences :: "string \<Rightarrow> string \<Rightarrow> string" where
  "stripFences tag response =
     (let c0 = trim response;
          c1 = (if startsWith c0 (fence @ tag) then drop (length (fence @ tag)) c0 else c0);
          c2 = (if startsWith c1 fence then drop 3 c1 else c1);
          c3 = (if endsWith c2 fence then take (length c2 - 3) c2 else c2)
      in trim c3)"

definition normalizeIntent :: "parsed_intent \<Rightarrow> parsed_intent" where
  "normalizeIntent intent =
     (case entities intent of
        None \<Rightarrow> intent
      | Some e \<Rightarrow>
          intent\<lparr>entities := Some (e\<lparr>companyE := map_option (map toLowerCase) (companyE e),
                                      modelE := map_option (map toLowerCase) (modelE e)\<rparr>)\<rparr>)"

definition defaultIntent :: parsed_intent where
  "defaultIntent = \<lparr>task = Query, entities = Some noEntities, constraints = Some noConstraints,
     priority_features = None, comparison_type = Some Single\<rparr>"

definition parseIntent ::
  "'w generation \<Rightarrow> string \<Rightarrow> chat_history_message list \<Rightarrow> (parsed_intent, 'w) io" where
  "parseIntent llm query history =
     bindE (generateContent llm (IntentPrompt query) (contextHistory history) False)
       (\<lambda>response.
          case JSON_parse llm (stripFences ''json'' response) of
            Inr parsed \<Rightarrow> returnE (normalizeIntent parsed)
          | Inl e \<Rightarrow> returnE defaultIntent)"

definition invalidSQL :: exn where
  "invalidSQL = Error ''Invalid SQL: Only SELECT statements allowed''"

definition generateSQL :: "'w generation \<Rightarrow> parsed_intent \<Rightarrow> filters \<Rightarrow> (string, 'w) io" where
  "generateSQL llm intent f =
     bindE (generateContent llm (SqlPrompt intent f) [] False)
       (\<lambda>response.
          let sql = stripFences ''sql'' response in
          if \<not> startsWith (toUpperCase sql) ''SELECT'' then throwE invalidSQL
          else if \<not> includesStr (toUpperCase sql) ''LIMIT'' then returnE (sql @ '' LIMIT 5'')
          else returnE sql)"

text \<open>
  \<open>getUniquePhones\<close>: the loop over \<open>phones\<close> with the set \<open>seen\<close> of keys and the list
  \<open>unique\<close> built so far; the key of a phone is its brand, a hyphen and its model.
\<close>

definition phoneKey :: "phone \<Rightarrow> string" where
  "phoneKey p = company_name p @ ''-'' @ model_name p"

fun uniqueLoop :: "nat \<Rightarrow> string set \<Rightarrow> phone list \<Rightarrow> phone list \<Rightarrow> phone list" where
  "uniqueLoop limit seen unique [] = unique"
| "uniqueLoop limit seen unique (p # ps) =
     (if phoneKey p \<notin> seen
      then (if length (unique @ [p]) \<ge> limit then unique @ [p]
            else uniqueLoop limit (insert (phoneKey p) seen) (unique @ [p]) ps)
      else uniqueLoop limit seen unique ps)"

definition getUniquePhones :: "phone list \<Rightarrow> nat \<Rightarrow> phone list" where
  "getUniquePhones ps limit = uniqueLoop limit {} [] ps"

definition noPhonesMessage :: string where
  "noPhonesMessage =
     ''I couldn't find any phones matching your criteria. Could you try:'' @ [CHR 0x0A] @
     ''- Adjusting your price range'' @ [CHR 0x0A] @
     ''- Trying a different brand'' @ [CHR 0x0A] @
     ''- Being more specific about features you need''"

definition summarize ::
  "'w generation \<Rightarrow> string \<Rightarrow> phone list \<Rightarrow> chat_history_message list \<Rightarrow> (string, 'w) io" where
  "summarize llm query ps history =
     (let uniquePhones = getUniquePhones ps 4 in
      if length uniquePhones = 0 then returnE noPhonesMessage
      else bindE (generateContent llm (SummaryPrompt query uniquePhones) (contextHistory history) True)
             (\<lambda>response. returnE (trim response)))"

definition answerGeneral ::
  "'w generation \<Rightarrow> string \<Rightarrow> chat_history_message list \<Rightarrow> (string, 'w) io" where
  "answerGeneral llm query history =
     bindE (generateContent llm (GeneralPrompt query) (contextHistory history) True)
       (\<lambda>response. returnE (trim response))"

section \<open>The vector client\<close>

text \<open>
  The similarity index is outside the program: \<open>indexReady\<close> is \<open>initIndex\<close> followed by
  the test of \<open>initialized\<close> (it never throws), \<open>indexQuery\<close> is the embedding of the query
  followed by the index lookup (top 5, type filter), returning each match's optional
  score with its metadata, and \<open>searchProducts\<close> is the semantic product search, taken
  as a service. The parameter \<open>companyFilter\<close> of \<open>findSimilar\<close> is never passed by this
  program and is left out.
\<close>

record index_match =
  match_id :: string
  match_score :: "rat option"
  match_type :: vtype
  match_value :: string
  match_company :: "string option"

record semantic_filters =
  sf_maxPrice :: "rat option"
  sf_minPrice :: "rat option"
  sf_minRam :: "rat option"
  sf_minBattery :: "rat option"
  sf_company :: "string option"

record 'w vector =
  indexReady :: "(bool, 'w) io"
  indexQuery :: "string \<Rightarrow> vtype option \<Rightarrow> (index_match list, 'w) io"
  searchProducts :: "string \<Rightarrow> semantic_filters \<Rightarrow> nat \<Rightarrow> (phone list, 'w) io"

text \<open>\<open>results.sort((a, b) => b.score - a.score)\<close>: a stable sort, highest score first.\<close>

definition sortByScore :: "vector_search_result list \<Rightarrow> vector_search_result list" where
  "sortByScore rs = sort_key (\<lambda>r. - score r) rs"

definition companyMatches :: "string \<Rightarrow> string list \<Rightarrow> vector_search_result list" where
  "companyMatches queryLower companies =
     concat (map (\<lambda>c.
        let sc = stringSimilarity queryLower (toLowerCase c) in
        if sc > 5 / 10
        then [\<lparr>vid = CompanyId c, score = sc, m_type = Company, m_value = c, m_company = None\<rparr>]
        else []) companies)"

definition modelMatches :: "string \<Rightarrow> phone list \<Rightarrow> vector_search_result list" where
  "modelMatches queryLower ps =
     map (\<lambda>p.
        let sc = stringSimilarity queryLower (toLowerCase (model_name p)) in
        \<lparr>vid = ModelId (phone_id p), score = max sc (6 / 10), m_type = Model,
         m_value = model_name p, m_company = Some (company_name p)\<rparr>) (take 5 ps)"

definition fallbackSimilar ::
  "'w catalog \<Rightarrow> string \<Rightarrow> vtype option \<Rightarrow> (vector_search_result list, 'w) io" where
  "fallbackSimilar cat query typeFilter =
     (let queryLower = toLowerCase query in
      bindE (if typeFilter = None \<or> typeFilter = Some Company
             then bindE (getCompanies cat) (\<lambda>cs. returnE (companyMatches queryLower cs))
             else returnE [])
        (\<lambda>r1.
      bindE (if typeFilter = None \<or> typeFilter = Some Model
             then bindE (searchPhonesByModel cat query) (\<lambda>ps. returnE (modelMatches queryLower ps))
             else returnE [])
        (\<lambda>r2. returnE (take 5 (sortByScore (r1 @ r2))))))"

definition matchResult :: "index_match \<Rightarrow> vector_search_result" where
  "matchResult m =
     \<lparr>vid = IndexId (match_id m),
      score = (if truthyNum (match_score m) then the (match_score m) else 0),
      m_type = match_type m, m_value = match_value m, m_company = match_company m\<rparr>"

definition findSimilar ::
  "'w vector \<Rightarrow> 'w catalog \<Rightarrow> string \<Rightarrow> vtype option \<Rightarrow> rat \<Rightarrow> (vector_search_result list, 'w) io" where
  "findSimilar vec cat query typeFilter threshold =
     bindE (indexReady vec)
       (\<lambda>initialized.
          if \<not> initialized then fallbackSimilar cat query typeFilter
          else catchE
                 (bindE (indexQuery vec (toLowerCase query) typeFilter)
                    (\<lambda>matches. returnE
                       (map matchResult
                          (filter (\<lambda>m. truthyNum (match_score m) \<and> the (match_score m) \<ge> threshold)
                             matches))))
                 (\<lambda>e. fallbackSimilar cat query typeFilter))"

section \<open>The query processor\<close>

subsection \<open>Follow-up detection and history\<close>

definition followUpPhrases :: "string list" where
  "followUpPhrases =
     [''tell me more'', ''more about'', ''first one'', ''second one'', ''this phone'',
      ''that phone'', ''the first'', ''the second'', ''which one'', ''more details'',
      ''explain'', ''why'', ''what about'',
      ''which is best'', ''which is the best'', ''best among'', ''best one'', ''best phone'',
      ''recommend'', ''should i buy'', ''should i get'', ''which should i'', ''top pick'',
      ''top choice'', ''among these'', ''among all'', ''of these'', ''out of these'']"

definition isFollowUpQuery :: "string \<Rightarrow> bool" where
  "isFollowUpQuery query = list_ex (\<lambda>phrase. includesStr (toLowerCase query) phrase) followUpPhrases"

definition bestPhrases :: "string list" where
  "bestPhrases =
     [''which is best'', ''which one is best'', ''which phone is best'', ''which is the best'',
      ''which one is the best'', ''which phone is the best'', ''best among'', ''best one'',
      ''best phone'', ''recommend one'', ''recommend me one'', ''should i buy'', ''should i get'',
      ''which should i'', ''pick one'', ''top choice'', ''top pick'']"

definition isBestPhoneQuery :: "string \<Rightarrow> bool" where
  "isBestPhoneQuery query = list_ex (\<lambda>phrase. includesStr (toLowerCase query) phrase) bestPhrases"

text \<open>The loop of \<open>getPhonesFromHistory\<close> runs from the last turn down; \<open>lastPhones\<close> reads
  the reversed history from its head.\<close>

fun lastPhones :: "chat_history_message list \<Rightarrow> phone list" where
  "lastPhones [] = []"
| "lastPhones (h # hs) =
     (case phonesH h of
        Some ps \<Rightarrow> (if length ps > 0 then ps else lastPhones hs)
      | None \<Rightarrow> lastPhones hs)"

definition getPhonesFromHistory :: "chat_history_message list \<Rightarrow> phone list" where
  "getPhonesFromHistory history = lastPhones (rev history)"

subsection \<open>Error messages\<close>

text \<open>
  The user messages of \<open>classifyError\<close> open with a pictograph in the source; it is not
  an ASCII character and is left out here.
\<close>

definition classifyError :: "string \<Rightarrow> string \<times> string" where
  "classifyError errorMessage =
     (let lowerError = toLowerCase errorMessage in
      if includesStr lowerError ''rate_limit'' \<or> includesStr lowerError ''rate limit'' \<or>
         includesStr lowerError ''429'' \<or> includesStr lowerError ''too many requests''
      then (''Our AI service is temporarily busy. While waiting, here are some phones that might match your query:'',
            ''Rate limit exceeded'')
      else if includesStr lowerError ''quota'' \<or> includesStr lowerError ''insufficient_quota'' \<or>
         includesStr lowerError ''billing'' \<or> includesStr lowerError ''exceeded''
      then (''AI service quota reached. Here are phones from our database that match your search:'',
            ''API quota exceeded'')
      else if includesStr lowerError ''network'' \<or> includesStr lowerError ''connection'' \<or>
         includesStr lowerError ''econnrefused'' \<or> includesStr lowerError ''timeout'' \<or>
         includesStr lowerError ''fetch failed''
      then (''Connection issue with AI service. Here are phones that might help:'',
            ''Network connection error'')
      else if includesStr lowerError ''invalid_api_key'' \<or> includesStr lowerError ''authentication'' \<or>
         includesStr lowerError ''unauthorized'' \<or> includesStr lowerError ''401''
      then (''AI service configuration issue. Here are some phone recommendations from our database:'',
            ''API authentication error'')
      else (''Sorry, I couldn't generate a personalized response. Here are some phones that might match your search:'',
            errorMessage))"

subsection \<open>Keyword fallback\<close>

text \<open>
  \<open>query.match(/(\d{1,3})[k,K]|\XY?\s*(\d{4,6})/)\<close>, where the source file holds, after
  the backslash, the three characters U+201A, U+00C7 and U+03C0 (what the UTF-8 bytes of
  the rupee sign make when read in another encoding): \<open>X\<close> is U+201A, \<open>Y\<close> is U+00C7, and
  the question mark makes U+03C0 alone optional. The first alternative tries three
  digits, then two, then one, each followed by a character of the class \<open>[k,K]\<close> (which
  holds the comma). The second alternative needs the code units 8218 (U+201A) and 199
  (U+00C7), takes the code unit 960 (U+03C0) when it is there, skips whitespace and takes
  four to six digits. The match is the leftmost one, the first alternative first at each
  position; the result is the pair of the two groups.
\<close>

definition inClass_kK :: "char \<Rightarrow> bool" where
  "inClass_kK c = (c = CHR ''k'' \<or> c = CHR '','' \<or> c = CHR ''K'')"

fun alt1 :: "nat \<Rightarrow> string \<Rightarrow> string option" where
  "alt1 0 s = None"
| "alt1 (Suc d) s =
     (if length (takeWhile isDigit s) \<ge> Suc d \<and>
         (case drop (Suc d) s of c # _ \<Rightarrow> inClass_kK c | [] \<Rightarrow> False)
      then Some (take (Suc d) s)
      else alt1 d s)"

text \<open>\<open>\s*(\d{4,6})\<close> at the head of a string.\<close>

definition digitsAfterSpaces :: "string \<Rightarrow> string option" where
  "digitsAfterSpaces s =
     (let ds = takeWhile isDigit (take 6 (dropWhile isSpace s))
      in if length ds \<ge> 4 then Some ds else None)"

definition alt2 :: "string \<Rightarrow> string option" where
  "alt2 s =
     (case s of
        c1 # c2 # rest \<Rightarrow>
          if (of_char c1 :: nat) = 8218 \<and> (of_char c2 :: nat) = 199
          then (case rest of
                  c3 # rest' \<Rightarrow>
                    if (of_char c3 :: nat) = 960
                    then (case digitsAfterSpaces rest' of
                            Some g \<Rightarrow> Some g
                          | None \<Rightarrow> digitsAfterSpaces rest)
                    else digitsAfterSpaces rest
                | [] \<Rightarrow> digitsAfterSpaces rest)
          else None
      | _ \<Rightarrow> None)"

fun priceMatch :: "string \<Rightarrow> (string option \<times> string option) option" where
  "priceMatch [] = None"
| "priceMatch (c # cs) =
     (case alt1 3 (c # cs) of
        Some g \<Rightarrow> Some (Some g, None)
      | None \<Rightarrow>
          (case alt2 (c # cs) of
             Some g \<Rightarrow> Some (None, Some g)
           | None \<Rightarrow> priceMatch cs))"

text \<open>\<open>parseInt\<close> on a string of decimal digits.\<close>

definition parseInt :: "string \<Rightarrow> rat" where
  "parseInt ds = foldl (\<lambda>a c. 10 * a + of_nat ((of_char c :: nat) - 48)) 0 ds"

definition priceValue :: "string option \<times> string option \<Rightarrow> rat" where
  "priceValue m =
     (case m of
        (Some g1, _) \<Rightarrow> parseInt g1 * 1000
      | (None, Some g2) \<Rightarrow> parseInt g2
      | (None, None) \<Rightarrow> parseInt ''0'')"

definition brands :: "string list" where
  "brands = [''samsung'', ''apple'', ''iphone'', ''xiaomi'', ''oneplus'', ''vivo'', ''oppo'',
             ''realme'', ''motorola'']"

text \<open>The filters \<open>getFallbackResults\<close> builds from the message.\<close>

definition fallbackFilters :: "string \<Rightarrow> filters" where
  "fallbackFilters query =
     (let keywords = splitWhitespace (toLowerCase query);
          f0 = noFilters;
          f1 = (case priceMatch query of
                  None \<Rightarrow> f0
                | Some m \<Rightarrow>
                    if includesStr (toLowerCase query) ''under'' \<or> includesStr (toLowerCase query) ''below''
                    then f0\<lparr>maxPrice := Some (priceValue m)\<rparr>
                    else if includesStr (toLowerCase query) ''above'' \<or> includesStr (toLowerCase query) ''over''
                    then f0\<lparr>minPrice := Some (priceValue m)\<rparr>
                    else f0\<lparr>maxPrice := Some (priceValue m + 10000),
                            minPrice := Some (max 0 (priceValue m - 10000))\<rparr>)
      in case find (\<lambda>brand. brand \<in> set keywords \<or> (brand @ ''s'') \<in> set keywords) brands of
           None \<Rightarrow> f1
         | Some brand \<Rightarrow> f1\<lparr>company := Some (if brand = ''iphone'' then ''apple'' else brand)\<rparr>)"

text \<open>\<open>(p.user_rating || 0)\<close>\<close>

definition ratingOrZero :: "phone \<Rightarrow> rat" where
  "ratingOrZero p = (if user_rating p \<noteq> 0 then user_rating p else 0)"

definition getFallbackResults :: "'w catalog \<Rightarrow> string \<Rightarrow> (phone list, 'w) io" where
  "getFallbackResults cat query =
     bindE (getFilteredPhones cat (fallbackFilters query))
       (\<lambda>ps. returnE (take 8 (sort_key (\<lambda>p. - ratingOrZero p) ps)))"

text \<open>
  \<open>generateFallbackMessage\<close>: one line per phone of the first five; \<open>phoneLine i p\<close> is the
  line of the phone \<open>p\<close> at index \<open>i\<close>, which the source writes with the platform's
  \<open>toLocaleString\<close> and is a parameter here.
\<close>

definition joinWith :: "string \<Rightarrow> string list \<Rightarrow> string" where
  "joinWith sep xs = (case xs of [] \<Rightarrow> [] | y # ys \<Rightarrow> foldl (\<lambda>a x. a @ sep @ x) y ys)"

definition generateFallbackMessage ::
  "(nat \<Rightarrow> phone \<Rightarrow> string) \<Rightarrow> string \<Rightarrow> phone list \<Rightarrow> string" where
  "generateFallbackMessage phoneLine warningMessage ps =
     (let phoneList = joinWith [CHR 0x0A]
            (map (\<lambda>(i, p). phoneLine i p) (zip [0..<length (take 5 ps)] (take 5 ps)))
      in warningMessage @ [CHR 0x0A, CHR 0x0A] @ phoneList @ [CHR 0x0A, CHR 0x0A] @
         ''*Click on any phone card below for full specifications.*'')"

subsection \<open>Typo correction and filter merging\<close>

text \<open>The loop of \<open>applyCorrections\<close> over the tokens of one entity list.\<close>

fun correctTokens ::
  "'w vector \<Rightarrow> 'w catalog \<Rightarrow> vtype \<Rightarrow> string list \<Rightarrow> (string list, 'w) io" where
  "correctTokens vec cat ty [] = returnE []"
| "correctTokens vec cat ty (token # rest) =
     bindE (findSimilar vec cat token (Some ty) (7 / 10))
       (\<lambda>similar.
          let token' = (case similar of
                          r # _ \<Rightarrow> if score r > 7 / 10 then m_value r else token
                        | [] \<Rightarrow> token)
          in bindE (correctTokens vec cat ty rest) (\<lambda>rest'. returnE (token' # rest')))"

definition applyCorrections ::
  "'w vector \<Rightarrow> 'w catalog \<Rightarrow> parsed_intent \<Rightarrow> (parsed_intent, 'w) io" where
  "applyCorrections vec cat intent =
     (case entities intent of
        None \<Rightarrow> returnE intent
      | Some e \<Rightarrow>
          bindE (case companyE e of
                   None \<Rightarrow> returnE e
                 | Some cs \<Rightarrow>
                     bindE (correctTokens vec cat Company cs)
                       (\<lambda>correctedCompanies. returnE (e\<lparr>companyE := Some correctedCompanies\<rparr>)))
            (\<lambda>e1.
          bindE (case modelE e of
                   None \<Rightarrow> returnE e1
                 | Some ms \<Rightarrow>
                     bindE (correctTokens vec cat Model ms)
                       (\<lambda>correctedModels. returnE (e1\<lparr>modelE := Some correctedModels\<rparr>)))
            (\<lambda>e2. returnE (intent\<lparr>entities := Some e2\<rparr>))))"

text \<open>
  One \<open>if\<close> of \<open>mergeFilters\<close>: \<open>fv\<close> is the bound of the filters, \<open>cv\<close> the constraint of
  the intent; both tests are JavaScript truthiness tests.
\<close>

definition mergeMin :: "rat option \<Rightarrow> rat option \<Rightarrow> rat option" where
  "mergeMin fv cv = (if truthyNum cv \<and> (\<not> truthyNum fv \<or> the cv > the fv) then cv else fv)"

definition mergeMax :: "rat option \<Rightarrow> rat option \<Rightarrow> rat option" where
  "mergeMax fv cv = (if truthyNum cv \<and> (\<not> truthyNum fv \<or> the cv < the fv) then cv else fv)"

definition intentCompanies :: "parsed_intent \<Rightarrow> string list" where
  "intentCompanies intent =
     (case entities intent of None \<Rightarrow> [] | Some e \<Rightarrow> (case companyE e of None \<Rightarrow> [] | Some cs \<Rightarrow> cs))"

definition intentModels :: "parsed_intent \<Rightarrow> string list" where
  "intentModels intent =
     (case entities intent of None \<Rightarrow> [] | Some e \<Rightarrow> (case modelE e of None \<Rightarrow> [] | Some ms \<Rightarrow> ms))"

definition intentConstraints :: "parsed_intent \<Rightarrow> constraints" where
  "intentConstraints intent = (case constraints intent of None \<Rightarrow> noConstraints | Some c \<Rightarrow> c)"

definition mergeFilters :: "filters \<Rightarrow> parsed_intent \<Rightarrow> filters" where
  "mergeFilters f intent =
     (let c = intentConstraints intent in
      \<lparr>company = (case intentCompanies intent of
                    c0 # _ \<Rightarrow> if \<not> truthyStr (company f) then Some c0 else company f
                  | [] \<Rightarrow> company f),
       minPrice = mergeMin (minPrice f) (min_price c),
       maxPrice = mergeMax (maxPrice f) (max_price c),
       minCamera = mergeMin (minCamera f) (min_camera c),
       maxCamera = mergeMax (maxCamera f) (max_camera c),
       minBattery = mergeMin (minBattery f) (min_battery c),
       maxBattery = mergeMax (maxBattery f) (max_battery c),
       minRam = mergeMin (minRam f) (min_ram c),
       maxRam = mergeMax (maxRam f) (max_ram c),
       minStorage = mergeMin (minStorage f) (min_storage c),
       maxStorage = mergeMax (maxStorage f) (max_storage c)\<rparr>)"

subsection \<open>Retrieval paths\<close>

definition companyPatterns :: "(string \<times> string list) list" where
  "companyPatterns =
     [(''samsung'', [''galaxy'', ''s24'', ''s23'', ''s22'', ''s21'', ''a55'', ''a54'', ''a53'',
                     ''m54'', ''m53'', ''fold'', ''flip'']),
      (''apple'', [''iphone'']),
      (''google'', [''pixel'']),
      (''oneplus'', [''oneplus'', ''nord'']),
      (''xiaomi'', [''redmi'', ''poco'', ''mi '']),
      (''realme'', [''realme'']),
      (''oppo'', [''oppo'', ''reno'', ''find'']),
      (''vivo'', [''vivo'', ''iqoo'']),
      (''motorola'', [''moto'', ''edge'', ''razr'']),
      (''nothing'', [''nothing'', ''phone (''] ),
      (''honor'', [''honor'', ''magic'']),
      (''huawei'', [''huawei'', ''mate'', ''p60'', ''p50''])]"

definition inferCompanyFromModel :: "string \<Rightarrow> string option" where
  "inferCompanyFromModel model =
     map_option fst
       (find (\<lambda>(c, patterns). list_ex (\<lambda>p. includesStr (toLowerCase model) p) patterns)
          companyPatterns)"

definition brandMappings :: "(string \<times> string list) list" where
  "brandMappings =
     [(''apple'', [''apple'', ''iphone'']),
      (''samsung'', [''samsung'', ''galaxy'']),
      (''google'', [''google'', ''pixel'']),
      (''oneplus'', [''oneplus'', ''one plus'']),
      (''xiaomi'', [''xiaomi'', ''redmi'', ''poco'']),
      (''realme'', [''realme'']),
      (''oppo'', [''oppo'', ''reno'']),
      (''vivo'', [''vivo'', ''iqoo'']),
      (''motorola'', [''motorola'', ''moto'']),
      (''nothing'', [''nothing'']),
      (''honor'', [''honor'']),
      (''huawei'', [''huawei''])]"

definition searchTerms :: "string \<Rightarrow> string list" where
  "searchTerms lowerCompany =
     (case find (\<lambda>(brand, aliases).
                   list_ex (\<lambda>alias. includesStr lowerCompany alias) aliases \<or>
                   includesStr lowerCompany brand) brandMappings of
        Some (brand, aliases) \<Rightarrow> brand # aliases
      | None \<Rightarrow> [lowerCompany])"

definition pct :: "string \<Rightarrow> string" where
  "pct t = ''%'' @ t @ ''%''"

text \<open>
  A loop that sends one statement per term and stops at the first answer with a row;
  \<open>results\<close> is the variable the loop overwrites.
\<close>

fun queryUntilFound ::
  "'w catalog \<Rightarrow> (string \<Rightarrow> statement) \<Rightarrow> string list \<Rightarrow> phone list \<Rightarrow> (phone list, 'w) io" where
  "queryUntilFound cat mk [] results = returnE results"
| "queryUntilFound cat mk (t # ts) results =
     bindE (queryPhones cat (mk t))
       (\<lambda>r. if length r > 0 then returnE r else queryUntilFound cat mk ts r)"

definition addUnique :: "phone list \<Rightarrow> phone list \<Rightarrow> phone list" where
  "addUnique ps results =
     foldl (\<lambda>acc ph. if list_ex (\<lambda>p. phone_id p = phone_id ph) acc then acc else acc @ [ph])
       ps results"

fun multiBrandLoop :: "'w catalog \<Rightarrow> string list \<Rightarrow> phone list \<Rightarrow> (phone list, 'w) io" where
  "multiBrandLoop cat [] ps = returnE ps"
| "multiBrandLoop cat (c # cs) ps =
     bindE (queryUntilFound cat (\<lambda>t. CompanyLike (pct t)) (searchTerms (toLowerCase c)) [])
       (\<lambda>results. multiBrandLoop cat cs (addUnique ps results))"

definition processMultiBrand :: "'w catalog \<Rightarrow> parsed_intent \<Rightarrow> (phone list, 'w) io" where
  "processMultiBrand cat intent = multiBrandLoop cat (intentCompanies intent) []"

definition modelAliases :: "(string \<times> string list) list" where
  "modelAliases =
     [(''s24'', [''galaxy s24 128gb'', ''galaxy s24 256gb'', ''galaxy s24'']),
      (''s24 ultra'', [''galaxy s24 ultra 128gb'', ''galaxy s24 ultra 256gb'', ''s24 ultra'']),
      (''s24+'', [''galaxy s24+ 128gb'', ''galaxy s24+ 256gb'', ''s24+'']),
      (''s23'', [''galaxy s23 128gb'', ''galaxy s23 256gb'', ''galaxy s23'']),
      (''s23 ultra'', [''galaxy s23 ultra'', ''s23 ultra'']),
      (''a55'', [''galaxy a55'', ''a55 5g'']),
      (''a54'', [''galaxy a54'', ''a54 5g'']),
      (''iphone 15'', [''iphone 15'', ''iphone 15 128gb'']),
      (''iphone 15 pro'', [''iphone 15 pro'', ''iphone 15 pro 128gb'', ''iphone 15 pro 256gb'']),
      (''iphone 15 pro max'', [''iphone 15 pro max'', ''iphone 15 pro max 128gb'',
                               ''iphone 15 pro max 256gb'']),
      (''iphone 14'', [''iphone 14'', ''iphone 14 128gb'']),
      (''pixel 8'', [''pixel 8'', ''pixel 8 128gb'']),
      (''pixel 8 pro'', [''pixel 8 pro'', ''pixel 8 pro 128gb'']),
      (''pixel 8a'', [''pixel 8a'', ''pixel 8a 128gb'']),
      (''oneplus 12'', [''oneplus 12'', ''oneplus 12 256gb'']),
      (''oneplus 12r'', [''oneplus 12r'', ''oneplus 12r 128gb'']),
      (''oneplus nord'', [''nord ce'', ''nord 3'', ''nord 4'']),
      (''redmi note 13'', [''redmi note 13'', ''redmi note 13 pro'', ''redmi note 13 pro+'']),
      (''nothing phone'', [''phone (1)'', ''phone (2)'', ''phone 2a''])]"

definition nthOpt :: "'a list \<Rightarrow> nat \<Rightarrow> 'a option" where
  "nthOpt xs i = (if i < length xs then Some (xs ! i) else None)"

text \<open>\<open>lowerModel.match(/^s\d+/)\<close>\<close>

definition matchesSDigits :: "string \<Rightarrow> bool" where
  "matchesSDigits s = (case s of c # d # _ \<Rightarrow> c = CHR ''s'' \<and> isDigit d | _ \<Rightarrow> False)"

text \<open>
  \<open>modelAliases[lowerModel]\<close> reads a plain object: for the two lower-case names that every
  object inherits the lookup yields a value that is not a list (a function, an object),
  and the loop over it throws a \<open>TypeError\<close>.
\<close>

definition inheritedNames :: "string list" where
  "inheritedNames = [''constructor'', ''__proto__'']"

text \<open>The body of the loop of \<open>processMultiModel\<close> for the model at index \<open>i\<close>: strategies 1 to 5.\<close>

definition findModel :: "'w catalog \<Rightarrow> string list \<Rightarrow> nat \<Rightarrow> string \<Rightarrow> (phone list, 'w) io" where
  "findModel cat companies i model =
     (let companyI = (if truthyStr (nthOpt companies i) then nthOpt companies i
                      else if truthyStr (nthOpt companies 0) then nthOpt companies 0
                      else inferCompanyFromModel model);
          lowerModel = toLowerCase model;
          aliases = (case map_of modelAliases lowerModel of Some a \<Rightarrow> a | None \<Rightarrow> [])
      in
      bindE (if lowerModel \<in> set inheritedNames
             then throwE (Error ''aliases is not iterable'')
             else queryUntilFound cat (\<lambda>alias. ModelLike (pct alias)) aliases [])
        (\<lambda>r1.
      bindE (if length r1 = 0 \<and> truthyStr companyI
             then queryPhones cat (CompanyModelLike (pct (the companyI)) (pct model))
             else returnE r1)
        (\<lambda>r2.
      bindE (if length r2 = 0 then queryPhones cat (ModelLike (pct model)) else returnE r2)
        (\<lambda>r3.
      bindE (if length r3 = 0 \<and> (companyI = Some ''samsung'' \<or> matchesSDigits lowerModel)
             then queryPhones cat (ModelLike (''%galaxy '' @ model @ ''%''))
             else returnE r3)
        (\<lambda>r4.
      (if length r4 = 0 \<and> companyI = Some ''apple'' \<and> \<not> includesStr lowerModel ''iphone''
       then queryPhones cat (ModelLike (''%iphone '' @ model @ ''%''))
       else returnE r4))))))"

fun multiModelLoop ::
  "'w catalog \<Rightarrow> string list \<Rightarrow> nat \<Rightarrow> string list \<Rightarrow> phone list \<Rightarrow> (phone list, 'w) io" where
  "multiModelLoop cat companies i [] ps = returnE ps"
| "multiModelLoop cat companies i (model # rest) ps =
     bindE (findModel cat companies i model)
       (\<lambda>results. multiModelLoop cat companies (Suc i) rest
                     (if length results > 0 then ps @ results else ps))"

definition processMultiModel :: "'w catalog \<Rightarrow> parsed_intent \<Rightarrow> (phone list, 'w) io" where
  "processMultiModel cat intent =
     multiModelLoop cat (intentCompanies intent) 0 (intentModels intent) []"

text \<open>\<open>a || b\<close> on optional numbers and strings.\<close>

definition orNum :: "rat option \<Rightarrow> rat option \<Rightarrow> rat option" where
  "orNum a b = (if truthyNum a then a else b)"

definition orStr :: "string option \<Rightarrow> string option \<Rightarrow> string option" where
  "orStr a b = (if truthyStr a then a else b)"

definition intentFeatures :: "parsed_intent \<Rightarrow> string list" where
  "intentFeatures intent =
     (case entities intent of None \<Rightarrow> [] | Some e \<Rightarrow> (case features e of None \<Rightarrow> [] | Some fs \<Rightarrow> fs))"

definition processSingleQuery ::
  "'w generation \<Rightarrow> 'w vector \<Rightarrow> 'w catalog \<Rightarrow> parsed_intent \<Rightarrow> filters \<Rightarrow> string option \<Rightarrow>
   (phone list, 'w) io" where
  "processSingleQuery llm vec cat intent f originalQuery =
     (let c = constraints intent;
          semanticFilters =
            \<lparr>sf_maxPrice = orNum (maxPrice f) (Option.bind c max_price),
             sf_minPrice = orNum (minPrice f) (Option.bind c min_price),
             sf_minRam = orNum (minRam f) (Option.bind c min_ram),
             sf_minBattery = orNum (minBattery f) (Option.bind c min_battery),
             sf_company = orStr (company f) (nthOpt (intentCompanies intent) 0)\<rparr>;
          searchQuery =
            (if truthyStr originalQuery then the originalQuery
             else joinWith '' '' (intentFeatures intent) @ '' '' @
                  joinWith '' '' (intentCompanies intent) @ '' '' @
                  joinWith '' '' (intentModels intent))
      in
      bindE (catchE (searchProducts vec (trim searchQuery) semanticFilters 5) (\<lambda>e. returnE []))
        (\<lambda>ps1.
          if length ps1 > 0 then returnE ps1
          else
            bindE (catchE (bindE (generateSQL llm intent f)
                             (\<lambda>sql. queryPhones cat (GeneratedSQL sql)))
                     (\<lambda>e. returnE []))
              (\<lambda>ps2.
                if length ps2 > 0 then returnE ps2
                else getFilteredPhones cat f)))"

subsection \<open>The orchestrator\<close>

definition notify :: "(string \<Rightarrow> (unit, 'w) io) option \<Rightarrow> string \<Rightarrow> (unit, 'w) io" where
  "notify onStatus status = (case onStatus of None \<Rightarrow> returnE () | Some cb \<Rightarrow> cb status)"

definition rejectMessage :: string where
  "rejectMessage = ''I'm sorry, but I can only help with questions about mobile phones and related technology. Is there something about phones I can help you with?''"

definition response :: "string \<Rightarrow> phone list option \<Rightarrow> chat_response" where
  "response m ps = \<lparr>message = m, phones = ps, error = None, warning = None\<rparr>"

text \<open>\<open>[...previousPhones].sort((a, b) => b.user_rating - a.user_rating)\<close>: stable, best first.\<close>

definition sortByRating :: "phone list \<Rightarrow> phone list" where
  "sortByRating ps = sort_key (\<lambda>p. - user_rating p) ps"

text \<open>
  The body of the \<open>try\<close> block of \<open>process\<close>. In the branch for the best phone the sorted
  list has more than one entry; on an empty list \<open>sortedPhones[0]\<close> would be \<open>undefined\<close> and
  \<open>summarize\<close> would throw a \<open>TypeError\<close> on it.
\<close>

definition processTry ::
  "'w generation \<Rightarrow> 'w vector \<Rightarrow> 'w catalog \<Rightarrow> (string \<Rightarrow> (unit, 'w) io) option \<Rightarrow>
   string \<Rightarrow> filters \<Rightarrow> chat_history_message list \<Rightarrow> (chat_response, 'w) io" where
  "processTry llm vec cat onStatus userQuery f history =
     (let previousPhones = getPhonesFromHistory history in
      if isFollowUpQuery userQuery \<and> length previousPhones > 0 then
        bindE (notify onStatus ''Understanding your query...'')
          (\<lambda>_. if isBestPhoneQuery userQuery \<and> length previousPhones > 1
                then (case sortByRating previousPhones of
                        bestPhone # _ \<Rightarrow>
                          bindE (summarize llm userQuery [bestPhone] history)
                            (\<lambda>summary. returnE (response summary (Some [bestPhone])))
                      | [] \<Rightarrow> throwE (Error ''TypeError''))
                else bindE (summarize llm userQuery previousPhones history)
                       (\<lambda>summary. returnE (response summary (Some (take 5 previousPhones)))))
      else
        bindE (notify onStatus ''Understanding your query...'')
          (\<lambda>_.
        bindE (parseIntent llm userQuery history)
          (\<lambda>intent.
            if task intent = Reject then
              (if length previousPhones > 0
               then bindE (summarize llm userQuery previousPhones history)
                      (\<lambda>summary. returnE (response summary (Some (take 5 previousPhones))))
               else returnE (response rejectMessage None))
            else if task intent = General_qa then
              bindE (notify onStatus ''Thinking...'')
                (\<lambda>_. bindE (answerGeneral llm userQuery history)
                        (\<lambda>answer. returnE (response answer None)))
            else
              bindE (notify onStatus ''Searching phones...'')
                (\<lambda>_.
              bindE (applyCorrections vec cat intent)
                (\<lambda>correctedIntent.
                  let mergedFilters = mergeFilters f correctedIntent in
                  bindE (if comparison_type correctedIntent = Some Multi \<and>
                            length (intentModels correctedIntent) > 0
                         then processMultiModel cat correctedIntent
                         else if comparison_type correctedIntent = Some Multi \<and>
                                 length (intentCompanies correctedIntent) \<ge> 2
                         then processMultiBrand cat correctedIntent
                         else if isFollowUpQuery userQuery \<and> length previousPhones > 0
                         then returnE previousPhones
                         else processSingleQuery llm vec cat correctedIntent mergedFilters
                                (Some userQuery))
                    (\<lambda>ps.
                  bindE (notify onStatus ''Preparing response...'')
                    (\<lambda>_.
                  bindE (summarize llm userQuery ps history)
                    (\<lambda>summary. returnE (response summary (Some (take 5 ps)))))))))))"

text \<open>The inner \<open>try\<close> of the \<open>catch\<close> block: the status callback, then the keyword fallback.\<close>

definition fallbackAttempt ::
  "'w catalog \<Rightarrow> (string \<Rightarrow> (unit, 'w) io) option \<Rightarrow> string \<Rightarrow> (phone list, 'w) io" where
  "fallbackAttempt cat onStatus userQuery =
     bindE (notify onStatus ''Searching database...'') (\<lambda>_. getFallbackResults cat userQuery)"

definition errorMessageOf :: "exn \<Rightarrow> string" where
  "errorMessageOf e = (case e of Error m \<Rightarrow> m | Thrown \<Rightarrow> ''Unknown error'')"

text \<open>The \<open>catch\<close> block of \<open>process\<close>.\<close>

definition processCatch ::
  "'w catalog \<Rightarrow> (string \<Rightarrow> (unit, 'w) io) option \<Rightarrow> (nat \<Rightarrow> phone \<Rightarrow> string) \<Rightarrow>
   string \<Rightarrow> exn \<Rightarrow> (chat_response, 'w) io" where
  "processCatch cat onStatus phoneLine userQuery e =
     (case classifyError (errorMessageOf e) of
        (userMessage, technicalMessage) \<Rightarrow>
          (\<lambda>w. case fallbackAttempt cat onStatus userQuery w of
                  (Inr fallbackPhones, w') \<Rightarrow>
                    if length fallbackPhones > 0
                    then (Inr \<lparr>message = generateFallbackMessage phoneLine userMessage fallbackPhones,
                              phones = Some (take 5 fallbackPhones),
                              error = None, warning = Some userMessage\<rparr>, w')
                    else (Inr \<lparr>message = userMessage, phones = None,
                              error = Some technicalMessage, warning = None\<rparr>, w')
                | (Inl fallbackError, w') \<Rightarrow>
                    (Inr \<lparr>message = userMessage, phones = None,
                         error = Some technicalMessage, warning = None\<rparr>, w')))"

definition process ::
  "'w generation \<Rightarrow> 'w vector \<Rightarrow> 'w catalog \<Rightarrow> (string \<Rightarrow> (unit, 'w) io) option \<Rightarrow>
   (nat \<Rightarrow> phone \<Rightarrow> string) \<Rightarrow> string \<Rightarrow> filters \<Rightarrow> chat_history_message list \<Rightarrow>
   (chat_response, 'w) io" where
  "process llm vec cat onStatus phoneLine userQuery f history =
     catchE (processTry llm vec cat onStatus userQuery f history)
       (processCatch cat onStatus phoneLine userQuery)"

section \<open>Notions of the specification\<close>

text \<open>
  The tighter of two optional bounds, as the specification words it: the larger of two
  lower bounds, the smaller of two upper bounds, the one that is there when only one is.
\<close>

definition tighterMin :: "rat option \<Rightarrow> rat option \<Rightarrow> rat option" where
  "tighterMin a b =
     (case (a, b) of (None, y) \<Rightarrow> y | (Some x, None) \<Rightarrow> Some x | (Some x, Some y) \<Rightarrow> Some (max x y))"

definition tighterMax :: "rat option \<Rightarrow> rat option \<Rightarrow> rat option" where
  "tighterMax a b =
     (case (a, b) of (None, y) \<Rightarrow> y | (Some x, None) \<Rightarrow> Some x | (Some x, Some y) \<Rightarrow> Some (min x y))"

definition nonzeroBounds :: "filters \<Rightarrow> constraints \<Rightarrow> bool" where
  "nonzeroBounds f c =
     (Some 0 \<notin> {minPrice f, maxPrice f, minCamera f, maxCamera f, minBattery f, maxBattery f,
                 minRam f, maxRam f, minStorage f, maxStorage f,
                 min_price c, max_price c, min_camera c, max_camera c, min_battery c,
                 max_battery c, min_ram c, max_ram c, min_storage c, max_storage c})"

definition notBelow :: "rat option \<Rightarrow> rat option \<Rightarrow> bool" where
  "notBelow fv mv = (case fv of None \<Rightarrow> True | Some x \<Rightarrow> (case mv of None \<Rightarrow> False | Some y \<Rightarrow> x \<le> y))"

definition notAbove :: "rat option \<Rightarrow> rat option \<Rightarrow> bool" where
  "notAbove fv mv = (case fv of None \<Rightarrow> True | Some x \<Rightarrow> (case mv of None \<Rightarrow> False | Some y \<Rightarrow> y \<le> x))"

text \<open>A phone meets the bounds a \<open>Filters\<close> supplies; an empty company string supplies none.\<close>

definition atLeastOpt :: "rat option \<Rightarrow> rat \<Rightarrow> bool" where
  "atLeastOpt b v = (case b of None \<Rightarrow> True | Some x \<Rightarrow> x \<le> v)"

definition atMostOpt :: "rat option \<Rightarrow> rat \<Rightarrow> bool" where
  "atMostOpt b v = (case b of None \<Rightarrow> True | Some x \<Rightarrow> v \<le> x)"

definition withinBounds :: "filters \<Rightarrow> phone \<Rightarrow> bool" where
  "withinBounds f p =
     (atLeastOpt (minPrice f) (price_inr p) \<and> atMostOpt (maxPrice f) (price_inr p) \<and>
      atLeastOpt (minRam f) (ram_gb p) \<and> atMostOpt (maxRam f) (ram_gb p) \<and>
      atLeastOpt (minBattery f) (battery_mah p) \<and> atMostOpt (maxBattery f) (battery_mah p) \<and>
      atLeastOpt (minCamera f) (back_camera_mp p) \<and> atMostOpt (maxCamera f) (back_camera_mp p) \<and>
      atLeastOpt (minStorage f) (memory_gb p) \<and> atMostOpt (maxStorage f) (memory_gb p) \<and>
      (case company f of
         None \<Rightarrow> True
       | Some c \<Rightarrow> c = [] \<or> toLowerCase (company_name p) = toLowerCase c))"

definition ratingThenPrice :: "phone \<Rightarrow> phone \<Rightarrow> bool" where
  "ratingThenPrice a b =
     (user_rating a > user_rating b \<or> (user_rating a = user_rating b \<and> price_inr a \<le> price_inr b))"

text \<open>The row cap a statement's \<open>LIMIT\<close> clause sets: the number after the first \<open>LIMIT\<close>.\<close>

fun afterKeyword :: "string \<Rightarrow> string \<Rightarrow> string option" where
  "afterKeyword kw [] = None"
| "afterKeyword kw (c # cs) =
     (if startsWith (c # cs) kw then Some (drop (length kw) (c # cs)) else afterKeyword kw cs)"

definition rowCap :: "string \<Rightarrow> rat option" where
  "rowCap sql =
     (case afterKeyword ''LIMIT'' (toUpperCase sql) of
        None \<Rightarrow> None
      | Some rest \<Rightarrow>
          (let ds = takeWhile isDigit (dropWhile isSpace rest)
           in if ds = [] then None else Some (parseInt ds)))"





text \<open>
  \<open>ensures m P\<close>: whatever the computation \<open>m\<close> returns satisfies \<open>P\<close>. A response is
  well formed when it carries no error and at most five phones.
\<close>

definition ensures :: "('a, 'w) io \<Rightarrow> ('a \<Rightarrow> bool) \<Rightarrow> bool" where
  "ensures m P = (\<forall>w x w'. m w = (Inr x, w') \<longrightarrow> P x)"

definition wellFormed :: "chat_response \<Rightarrow> bool" where
  "wellFormed r = (error r = None \<and> (case phones r of None \<Rightarrow> True | Some ps \<Rightarrow> length ps \<le> 5))"

text \<open>A turn of the history that carried no phone.\<close>

definition carriesNoPhone :: "chat_history_message \<Rightarrow> bool" where
  "carriesNoPhone t = (phonesH t = None \<or> phonesH t = Some [])"

section \<open>Example data\<close>

definition examplePhone :: "rat \<Rightarrow> string \<Rightarrow> string \<Rightarrow> rat \<Rightarrow> rat \<Rightarrow> phone" where
  "examplePhone i c m r pr =
     \<lparr>phone_id = i, company_name = c, model_name = m, processor = [], launched_year = 2024,
      user_rating = r, user_review = [], camera_rating = 0, battery_rating = 0,
      design_rating = 0, display_rating = 0, performance_rating = 0, memory_gb = 128,
      weight_g = 190, ram_gb = 8, front_camera_mp = 12, back_camera_mp = 50,
      battery_mah = 5000, price_inr = pr, screen_size = 6\<rparr>"

definition exampleTable :: "phone list" where
  "exampleTable =
     [examplePhone 1 ''samsung'' ''galaxy a55'' (42 / 10) 18000,
      examplePhone 2 ''samsung'' ''galaxy s24'' (45 / 10) 25000,
      examplePhone 3 ''apple'' ''iphone 15'' (48 / 10) 15000,
      examplePhone 4 ''samsung'' ''galaxy m54'' (45 / 10) 12000]"

text \<open>
  A store over a table: it answers the filtered statement as SQL reads it, lists the
  brands of the table, and in this example answers no row to every other statement.
\<close>

definition tableCatalog :: "phone list \<Rightarrow> unit catalog" where
  "tableCatalog table =
     \<lparr>queryPhones = (\<lambda>s. returnE (case s of FilteredSelect cs \<Rightarrow> selectFiltered table cs | _ \<Rightarrow> [])),
      getCompanies = returnE (remdups (map company_name table)),
      searchPhonesByModel = (\<lambda>t. returnE [])\<rparr>"

text \<open>A generation service that replies \<open>text\<close> to every prompt, without touching the world.\<close>

definition replyingService :: "string \<Rightarrow> (string \<Rightarrow> exn + parsed_intent) \<Rightarrow> unit generation" where
  "replyingService text parse =
     \<lparr>generateContent = (\<lambda>p h b. returnE text), JSON_parse = parse\<rparr>"

text \<open>A vector client whose similarity index is not available.\<close>

definition downVector :: "unit vector" where
  "downVector =
     \<lparr>indexReady = returnE False, indexQuery = (\<lambda>q t. returnE []),
      searchProducts = (\<lambda>q f k. returnE [])\<rparr>"

text \<open>
  A generation service that throws at every call, a catalog store that is not configured,
  an assistant turn that carried phones, and a line formatter.
\<close>

definition failingService :: "string \<Rightarrow> unit generation" where
  "failingService msg =
     \<lparr>generateContent = (\<lambda>p h b. throwE (Error msg)), JSON_parse = (\<lambda>s. Inl Thrown)\<rparr>"

definition failingCatalog :: "unit catalog" where
  "failingCatalog =
     \<lparr>queryPhones = (\<lambda>s. throwE (Error ''TURSO_DATABASE_URL environment variable is not set'')),
      getCompanies = throwE (Error ''TURSO_DATABASE_URL environment variable is not set''),
      searchPhonesByModel = (\<lambda>t. throwE (Error ''TURSO_DATABASE_URL environment variable is not set''))\<rparr>"

definition assistantTurn :: "phone list \<Rightarrow> chat_history_message" where
  "assistantTurn ps = \<lparr>role = Assistant, content = ''Here are some phones.'', phonesH = Some ps\<rparr>"

definition nameLine :: "nat \<Rightarrow> phone \<Rightarrow> string" where
  "nameLine i p = company_name p @ '' '' @ model_name p"

section \<open>Effects: what a result tells\<close>

lemma bindE_Inr:
  "bindE m f w = (Inr r, w') \<Longrightarrow> \<exists>x w1. m w = (Inr x, w1) \<and> f x w1 = (Inr r, w')"
  by (auto simp: bindE_def split: prod.splits sum.splits)

lemma ensures_returnE: "P x \<Longrightarrow> ensures (returnE x) P"
  by (simp add: ensures_def returnE_def)

lemma ensures_throwE: "ensures (throwE e) P"
  by (simp add: ensures_def throwE_def)

lemma ensures_bindE: "(\<And>x. ensures (f x) P) \<Longrightarrow> ensures (bindE m f) P"
  unfolding ensures_def by (blast dest: bindE_Inr)

lemma ensuresD: "ensures m P \<Longrightarrow> m w = (Inr x, w') \<Longrightarrow> P x"
  by (auto simp: ensures_def)

section \<open>The edit-distance loop fills the table\<close>

lemma inner_inv:
  assumes "0 < i" "k \<le> length s2" "costs = map (lev_table s1 s2 (i - 1)) [0..<Suc (length s2)]"
  shows "fold (lev_inner s1 s2 i) [0..<Suc k] (costs, i) =
     (map (lev_table s1 s2 i) [0..<k] @ map (lev_table s1 s2 (i - 1)) [k..<Suc (length s2)], lev_table s1 s2 i k)"
  using assms(2)
proof (induction k)
  case 0
  then show ?case using assms(1,3) by (cases i) (simp_all add: lev_inner_def)
next
  case (Suc k)
  then have IH: "fold (lev_inner s1 s2 i) [0..<Suc k] (costs, i) =
     (map (lev_table s1 s2 i) [0..<k] @ map (lev_table s1 s2 (i - 1)) [k..<Suc (length s2)], lev_table s1 s2 i k)"
    and k: "Suc k \<le> length s2" by simp_all
  obtain i' where i': "i = Suc i'" using assms(1) by (cases i) auto
  let ?new = "map (lev_table s1 s2 i) [0..<k]"
  let ?old = "map (lev_table s1 s2 (i - 1)) [k..<Suc (length s2)]"
  have len: "length ?new = k" by simp
  have u1: "[k..<Suc (length s2)] = k # [Suc k..<Suc (length s2)]"
    using k by (intro upt_conv_Cons) simp
  have u2: "[Suc k..<Suc (length s2)] = Suc k # [Suc (Suc k)..<Suc (length s2)]"
    using k by (intro upt_conv_Cons) simp
  have old_split: "?old = lev_table s1 s2 (i - 1) k # lev_table s1 s2 (i - 1) (Suc k) # map (lev_table s1 s2 (i - 1)) [Suc (Suc k)..<Suc (length s2)]"
    by (simp only: u1 u2 list.map)
  have old_split2: "map (lev_table s1 s2 (i - 1)) [Suc k..<Suc (length s2)] = lev_table s1 s2 (i - 1) (Suc k) # map (lev_table s1 s2 (i - 1)) [Suc (Suc k)..<Suc (length s2)]"
    by (simp only: u2 list.map)
  have nth_k: "(?new @ ?old) ! k = lev_table s1 s2 (i - 1) k"
    using len old_split by (simp add: nth_append)
  have nth_Sk: "(?new @ ?old) ! Suc k = lev_table s1 s2 (i - 1) (Suc k)"
    using len old_split by (simp add: nth_append)
  have upd: "set_at (?new @ ?old) k (lev_table s1 s2 i k) = map (lev_table s1 s2 i) [0..<Suc k] @ map (lev_table s1 s2 (i - 1)) [Suc k..<Suc (length s2)]"
    unfolding old_split old_split2 using len by (simp add: set_at_def list_update_append)
  have step: "lev_inner s1 s2 i (Suc k) (?new @ ?old, lev_table s1 s2 i k) =
      (map (lev_table s1 s2 i) [0..<Suc k] @ map (lev_table s1 s2 (i - 1)) [Suc k..<Suc (length s2)], lev_table s1 s2 i (Suc k))"
    using nth_k nth_Sk upd i' by (simp add: lev_inner_def Let_def)
  have "fold (lev_inner s1 s2 i) [0..<Suc (Suc k)] (costs, i) = lev_inner s1 s2 i (Suc k) (fold (lev_inner s1 s2 i) [0..<Suc k] (costs, i))"
    by simp
  then show ?case unfolding IH step .
qed


lemma row0: "fold (lev_inner s1 s2 0) [0..<k] ([], l) = ([0..<k], l)"
  by (induction k) (simp_all add: lev_inner_def set_at_def)

lemma outer_inv:
  "i \<le> length s1 \<Longrightarrow>
   fold (lev_outer s1 s2) [0..<Suc i] [] = map (lev_table s1 s2 i) [0..<Suc (length s2)]"
proof (induction i)
  case 0
  have "map (lev_table s1 s2 0) [0..<Suc (length s2)] = [0..<Suc (length s2)]"
    by (simp add: map_idI)
  then show ?case
    using row0[of s1 s2 "Suc (length s2)" 0] by (simp add: lev_outer_def)
next
  case (Suc i)
  then have IH: "fold (lev_outer s1 s2) [0..<Suc i] [] = map (lev_table s1 s2 i) [0..<Suc (length s2)]"
    by simp
  have inner: "fold (lev_inner s1 s2 (Suc i)) [0..<Suc (length s2)] (map (lev_table s1 s2 i) [0..<Suc (length s2)], Suc i) =
     (map (lev_table s1 s2 (Suc i)) [0..<length s2] @ map (lev_table s1 s2 i) [length s2..<Suc (length s2)],
      lev_table s1 s2 (Suc i) (length s2))"
    using inner_inv[of "Suc i" "length s2" s2 _ s1] by simp
  have "lev_outer s1 s2 (Suc i) (map (lev_table s1 s2 i) [0..<Suc (length s2)]) =
        map (lev_table s1 s2 (Suc i)) [0..<Suc (length s2)]"
    unfolding lev_outer_def inner by (simp add: set_at_def list_update_append)
  moreover have "fold (lev_outer s1 s2) [0..<Suc (Suc i)] [] =
      lev_outer s1 s2 (Suc i) (fold (lev_outer s1 s2) [0..<Suc i] [])"
    by simp
  ultimately show ?case unfolding IH by simp
qed

lemma levenshteinDistance_table:
  "levenshteinDistance s1 s2 = lev_table s1 s2 (length s1) (length s2)"
proof -
  have "map (lev_table s1 s2 (length s1)) [0..<Suc (length s2)] ! length s2 =
        lev_table s1 s2 (length s1) (length s2)"
    by (simp add: nth_append)
  then show ?thesis
    unfolding levenshteinDistance_def using outer_inv[of "length s1" s1 s2] by simp
qed

lemma lev_table_sym: "lev_table s1 s2 i j = lev_table s2 s1 j i"
proof (induction s1 s2 i j rule: lev_table.induct)
  case (1 s1 s2 j)
  then show ?case by (cases j) simp_all
next
  case (2 s1 s2 i)
  then show ?case by simp
next
  case (3 s1 s2 i j)
  then show ?case by (auto simp: min.commute min.left_commute)
qed

lemma lev_table_same: "lev_table s s i i = 0"
  by (induction i) simp_all

lemma lev_table_disjoint:
  "\<lbrakk>\<forall>x < length s1. \<forall>y < length s2. s1 ! x \<noteq> s2 ! y; i \<le> length s1; j \<le> length s2\<rbrakk>
   \<Longrightarrow> lev_table s1 s2 i j = max i j"
  by (induction s1 s2 i j rule: lev_table.induct) auto

lemma levenshteinDistance_sym: "levenshteinDistance s1 s2 = levenshteinDistance s2 s1"
  by (simp add: levenshteinDistance_table lev_table_sym[of s1 s2])



lemma stringSimilarity_formula:
  assumes "a \<noteq> [] \<or> b \<noteq> []"
  shows "stringSimilarity a b =
     (of_nat (max (length a) (length b)) - of_nat (levenshteinDistance a b))
     / of_nat (max (length a) (length b))"
proof (cases "length a > length b")
  case True
  then show ?thesis by (auto simp add: stringSimilarity_def max_def)
next
  case False
  then have "max (length a) (length b) = length b" by simp
  moreover have "length b \<noteq> 0" using assms False by auto
  ultimately show ?thesis
    using False by (simp add: stringSimilarity_def levenshteinDistance_sym[of b a])
qed

lemma stringSimilarity_same: "stringSimilarity a a = 1"
  by (simp add: stringSimilarity_def levenshteinDistance_table lev_table_same)

lemma stringSimilarity_disjoint:
  assumes "a \<noteq> []" "length a = length b" "set a \<inter> set b = {}"
  shows "stringSimilarity a b = 0"
proof -
  have "\<forall>x < length b. \<forall>y < length a. b ! x \<noteq> a ! y"
    using assms(3) by (metis disjoint_iff nth_mem)
  then have "lev_table b a (length b) (length a) = max (length b) (length a)"
    by (intro lev_table_disjoint) simp_all
  then show ?thesis
    using assms(1,2) by (auto simp add: stringSimilarity_def levenshteinDistance_table)
qed

text \<open>
  Claim C8, as amended. For strings \<open>a\<close>, \<open>b\<close> that are not both empty,
  \<open>stringSimilarity a b\<close> is \<open>(max_len - levenshteinDistance a b) / max_len\<close> with
  \<open>max_len\<close> the longer length, and \<open>levenshteinDistance\<close> is the entry of the edit-distance
  table for the two whole strings; two empty strings score 1; a string scores 1 against
  itself; two non-empty strings of equal length that have no character in common score 0.
\<close>

theorem C8_stringSimilarity:
  "(a \<noteq> [] \<or> b \<noteq> [] \<longrightarrow>
      stringSimilarity a b =
        (of_nat (max (length a) (length b)) - of_nat (levenshteinDistance a b))
        / of_nat (max (length a) (length b)))
   \<and> levenshteinDistance a b = lev_table a b (length a) (length b)
   \<and> stringSimilarity [] [] = 1
   \<and> stringSimilarity a a = 1
   \<and> (a \<noteq> [] \<and> length a = length b \<and> set a \<inter> set b = {} \<longrightarrow> stringSimilarity a b = 0)"
  using stringSimilarity_formula[of a b] stringSimilarity_same[of a]
    stringSimilarity_same[of "[]"] stringSimilarity_disjoint[of a b]
    levenshteinDistance_table[of a b]
  by blast

theorem C8_stringSimilarity_witness:
  "stringSimilarity ''abc'' ''xyz'' = (3 - of_nat (levenshteinDistance ''abc'' ''xyz'')) / 3
   \<and> stringSimilarity ''abc'' ''abc'' = 1
   \<and> stringSimilarity ''abc'' ''xyz'' = 0"
  using C8_stringSimilarity[of "''abc''" "''xyz''"] by simp

text \<open>
  Claim C8 as stated fails: \<open>abc\<close> and \<open>bca\<close> have equal length and differ in every
  position, and their edit distance is 2 (drop the \<open>a\<close> in front, add it at the end), so
  they score one third, not 0.
\<close>

theorem C8_counterexample:
  "length ''abc'' = length ''bca'' \<and> list_all2 (\<lambda>x y. x \<noteq> y) ''abc'' ''bca''
   \<and> stringSimilarity ''abc'' ''bca'' = 1 / 3"
  by code_simp

section \<open>Filter merging\<close>

lemma mergeMin_tighter:
  "fv \<noteq> Some 0 \<Longrightarrow> cv \<noteq> Some 0 \<Longrightarrow> mergeMin fv cv = tighterMin fv cv"
  by (cases fv; cases cv) (auto simp: mergeMin_def tighterMin_def truthyNum_def max_def)

lemma mergeMax_tighter:
  "fv \<noteq> Some 0 \<Longrightarrow> cv \<noteq> Some 0 \<Longrightarrow> mergeMax fv cv = tighterMax fv cv"
  by (cases fv; cases cv) (auto simp: mergeMax_def tighterMax_def truthyNum_def min_def)

lemma tighterMin_notBelow: "notBelow fv (tighterMin fv cv)"
  by (cases fv; cases cv) (auto simp: notBelow_def tighterMin_def)

lemma tighterMax_notAbove: "notAbove fv (tighterMax fv cv)"
  by (cases fv; cases cv) (auto simp: notAbove_def tighterMax_def)

lemma mergeFilters_company:
  "company (mergeFilters f i) =
     (if truthyStr (company f) then company f
      else (case intentCompanies i of c0 # _ \<Rightarrow> Some c0 | [] \<Rightarrow> company f))"
  by (simp add: mergeFilters_def Let_def split: list.splits)

text \<open>
  Claim C4, as amended. When no numeric bound of the filters \<open>f\<close> or of the intent's
  constraints is 0, \<open>mergeFilters\<close> takes the tighter bound for each of the ten numeric
  bounds (the larger lower bound, the smaller upper bound, the only one when one side is
  missing), so no bound of \<open>f\<close> is widened; the company is the first company of the
  intent when \<open>f\<close> has none (or an empty one), and the company of \<open>f\<close> otherwise.
\<close>

theorem C4_mergeFilters:
  assumes "nonzeroBounds f (intentConstraints i)"
  shows "(let c = intentConstraints i; m = mergeFilters f i in
     minPrice m = tighterMin (minPrice f) (min_price c) \<and>
     maxPrice m = tighterMax (maxPrice f) (max_price c) \<and>
     minRam m = tighterMin (minRam f) (min_ram c) \<and>
     maxRam m = tighterMax (maxRam f) (max_ram c) \<and>
     minBattery m = tighterMin (minBattery f) (min_battery c) \<and>
     maxBattery m = tighterMax (maxBattery f) (max_battery c) \<and>
     minCamera m = tighterMin (minCamera f) (min_camera c) \<and>
     maxCamera m = tighterMax (maxCamera f) (max_camera c) \<and>
     minStorage m = tighterMin (minStorage f) (min_storage c) \<and>
     maxStorage m = tighterMax (maxStorage f) (max_storage c) \<and>
     notBelow (minPrice f) (minPrice m) \<and> notAbove (maxPrice f) (maxPrice m) \<and>
     notBelow (minRam f) (minRam m) \<and> notAbove (maxRam f) (maxRam m) \<and>
     notBelow (minBattery f) (minBattery m) \<and> notAbove (maxBattery f) (maxBattery m) \<and>
     notBelow (minCamera f) (minCamera m) \<and> notAbove (maxCamera f) (maxCamera m) \<and>
     notBelow (minStorage f) (minStorage m) \<and> notAbove (maxStorage f) (maxStorage m) \<and>
     company m =
       (if truthyStr (company f) then company f
        else (case intentCompanies i of c0 # _ \<Rightarrow> Some c0 | [] \<Rightarrow> company f)))"
proof -
  let ?c = "intentConstraints i"
  have nz: "minPrice f \<noteq> Some 0" "maxPrice f \<noteq> Some 0" "minCamera f \<noteq> Some 0"
    "maxCamera f \<noteq> Some 0" "minBattery f \<noteq> Some 0" "maxBattery f \<noteq> Some 0"
    "minRam f \<noteq> Some 0" "maxRam f \<noteq> Some 0" "minStorage f \<noteq> Some 0" "maxStorage f \<noteq> Some 0"
    "min_price ?c \<noteq> Some 0" "max_price ?c \<noteq> Some 0" "min_camera ?c \<noteq> Some 0"
    "max_camera ?c \<noteq> Some 0" "min_battery ?c \<noteq> Some 0" "max_battery ?c \<noteq> Some 0"
    "min_ram ?c \<noteq> Some 0" "max_ram ?c \<noteq> Some 0" "min_storage ?c \<noteq> Some 0"
    "max_storage ?c \<noteq> Some 0"
    using assms unfolding nonzeroBounds_def by auto
  have sel: "minPrice (mergeFilters f i) = mergeMin (minPrice f) (min_price ?c)"
    "maxPrice (mergeFilters f i) = mergeMax (maxPrice f) (max_price ?c)"
    "minRam (mergeFilters f i) = mergeMin (minRam f) (min_ram ?c)"
    "maxRam (mergeFilters f i) = mergeMax (maxRam f) (max_ram ?c)"
    "minBattery (mergeFilters f i) = mergeMin (minBattery f) (min_battery ?c)"
    "maxBattery (mergeFilters f i) = mergeMax (maxBattery f) (max_battery ?c)"
    "minCamera (mergeFilters f i) = mergeMin (minCamera f) (min_camera ?c)"
    "maxCamera (mergeFilters f i) = mergeMax (maxCamera f) (max_camera ?c)"
    "minStorage (mergeFilters f i) = mergeMin (minStorage f) (min_storage ?c)"
    "maxStorage (mergeFilters f i) = mergeMax (maxStorage f) (max_storage ?c)"
    by (simp_all add: mergeFilters_def Let_def)
  show ?thesis
    unfolding Let_def sel
    by (simp only: mergeMin_tighter mergeMax_tighter nz tighterMin_notBelow tighterMax_notAbove
          mergeFilters_company simp_thms)
qed


theorem C4_mergeFilters_witness:
  "nonzeroBounds (noFilters\<lparr>minPrice := Some 10000, maxPrice := Some 30000\<rparr>)
     (noConstraints\<lparr>min_price := Some 15000, max_price := Some 50000\<rparr>)
   \<and> minPrice (mergeFilters (noFilters\<lparr>minPrice := Some 10000, maxPrice := Some 30000\<rparr>)
        (defaultIntent\<lparr>entities := Some (noEntities\<lparr>companyE := Some [''samsung'']\<rparr>),
           constraints := Some (noConstraints\<lparr>min_price := Some 15000, max_price := Some 50000\<rparr>)\<rparr>))
       = Some 15000
   \<and> maxPrice (mergeFilters (noFilters\<lparr>minPrice := Some 10000, maxPrice := Some 30000\<rparr>)
        (defaultIntent\<lparr>entities := Some (noEntities\<lparr>companyE := Some [''samsung'']\<rparr>),
           constraints := Some (noConstraints\<lparr>min_price := Some 15000, max_price := Some 50000\<rparr>)\<rparr>))
       = Some 30000
   \<and> company (mergeFilters (noFilters\<lparr>minPrice := Some 10000, maxPrice := Some 30000\<rparr>)
        (defaultIntent\<lparr>entities := Some (noEntities\<lparr>companyE := Some [''samsung'']\<rparr>),
           constraints := Some (noConstraints\<lparr>min_price := Some 15000, max_price := Some 50000\<rparr>)\<rparr>))
       = Some ''samsung''"
proof -
  let ?f = "noFilters\<lparr>minPrice := Some 10000, maxPrice := Some 30000\<rparr>"
  let ?c = "noConstraints\<lparr>min_price := Some 15000, max_price := Some 50000\<rparr>"
  let ?i = "defaultIntent\<lparr>entities := Some (noEntities\<lparr>companyE := Some [''samsung'']\<rparr>),
           constraints := Some ?c\<rparr>"
  have c: "intentConstraints ?i = ?c" by (simp add: intentConstraints_def)
  have h: "nonzeroBounds ?f (intentConstraints ?i)"
    unfolding c by (simp add: nonzeroBounds_def noFilters_def noConstraints_def)
  have e: "intentCompanies ?i = [''samsung'']" by (simp add: intentCompanies_def noEntities_def)
  show ?thesis
    using h C4_mergeFilters[OF h]
    unfolding c e Let_def
    by (simp add: tighterMin_def tighterMax_def noFilters_def noConstraints_def truthyStr_def)
qed

text \<open>
  Claim C4 as stated fails: the filters' upper price bound 0 is read as missing, and the
  intent's bound 20000 replaces it, where the tighter of the two is 0.
\<close>

theorem C4_counterexample:
  "maxPrice (mergeFilters (noFilters\<lparr>maxPrice := Some 0\<rparr>)
      (defaultIntent\<lparr>constraints := Some (noConstraints\<lparr>max_price := Some 20000\<rparr>)\<rparr>))
     = Some 20000
   \<and> tighterMax (Some 0) (Some 20000) = Some 0
   \<and> \<not> notAbove (Some 0) (Some 20000)"
  by (simp add: mergeFilters_def intentConstraints_def intentCompanies_def defaultIntent_def
        noFilters_def noConstraints_def noEntities_def mergeMax_def mergeMin_def truthyNum_def
        tighterMax_def notAbove_def Let_def)

section \<open>Filtered retrieval\<close>

lemma holds_optCond_Ge:
  "list_all (\<lambda>c. holds c p) (optCond b (Ge col)) = atLeastOpt b (numColumn col p)"
  by (cases b) (simp_all add: optCond_def atLeastOpt_def)

lemma holds_optCond_Le:
  "list_all (\<lambda>c. holds c p) (optCond b (Le col)) = atMostOpt b (numColumn col p)"
  by (cases b) (simp_all add: optCond_def atMostOpt_def)

lemma holds_company:
  "list_all (\<lambda>c. holds c p) (if truthyStr (company f) then [CompanyEq (the (company f))] else []) =
     (case company f of None \<Rightarrow> True | Some c \<Rightarrow> c = [] \<or> toLowerCase (company_name p) = toLowerCase c)"
  by (cases "company f") (simp_all add: truthyStr_def)

lemma holds_filterConds:
  "list_all (\<lambda>c. holds c p) (filterConds f) = withinBounds f p"
  unfolding filterConds_def list_all_append holds_optCond_Ge holds_optCond_Le withinBounds_def
    holds_company
  by (simp only: numColumn_def num_column.case conj_ac)

lemma sorted_orderKey:
  "sorted (map orderKey xs) \<Longrightarrow> sorted_wrt ratingThenPrice xs"
proof -
  assume "sorted (map orderKey xs)"
  then have "sorted_wrt (\<lambda>a b. orderKey a \<le> orderKey b) xs"
    by (simp add: sorted_map)
  then show ?thesis
    by (rule sorted_wrt_mono_rel[rotated])
       (auto simp: orderKey_def ratingThenPrice_def less_eq_prod_def)
qed

lemma take_sorted_filter_props:
  fixes n :: nat
  shows "(\<forall>p \<in> set (take n (sort_key orderKey (filter P table))). p \<in> set table \<and> P p)
   \<and> sorted_wrt ratingThenPrice (take n (sort_key orderKey (filter P table)))
   \<and> length (take n (sort_key orderKey (filter P table))) \<le> n"
proof -
  let ?rows = "sort_key orderKey (filter P table)"
  have "set (take n ?rows) \<subseteq> set ?rows" by (rule set_take_subset)
  moreover have "set ?rows = {p \<in> set table. P p}" by simp
  ultimately have a: "\<forall>p \<in> set (take n ?rows). p \<in> set table \<and> P p" by blast
  have "sorted (map orderKey ?rows)" by (rule sorted_sort_key)
  then have "sorted_wrt ratingThenPrice ?rows" by (rule sorted_orderKey)
  then have b: "sorted_wrt ratingThenPrice (take n ?rows)" by (rule sorted_wrt_take)
  have c: "length (take n ?rows) \<le> n" by simp
  from a b c show ?thesis by blast
qed

lemma selectFiltered_props:
  "(\<forall>p \<in> set (selectFiltered table cs). p \<in> set table \<and> list_all (\<lambda>c. holds c p) cs)
   \<and> sorted_wrt ratingThenPrice (selectFiltered table cs)
   \<and> length (selectFiltered table cs) \<le> 50"
  unfolding selectFiltered_def by (rule take_sorted_filter_props)

text \<open>
  Claim C6. When the store answers the statement of \<open>getFilteredPhones f\<close> as SQL reads it
  over its table (or the query fails inside \<open>queryPhones\<close>, which then returns no row),
  every phone returned meets every bound \<open>f\<close> supplies, the phones are ordered by rating
  descending then price ascending, and there are at most 50 of them.
\<close>

theorem C6_getFilteredPhones:
  assumes "queryPhones cat (FilteredSelect (filterConds f)) w = (Inr rows, w')"
    and "rows = selectFiltered table (filterConds f) \<or> rows = []"
  shows "getFilteredPhones cat f w = (Inr rows, w')
     \<and> (\<forall>p \<in> set rows. withinBounds f p)
     \<and> sorted_wrt ratingThenPrice rows
     \<and> length rows \<le> 50"
proof -
  have run: "getFilteredPhones cat f w = (Inr rows, w')"
    using assms(1) by (simp add: getFilteredPhones_def)
  from assms(2) have "(\<forall>p \<in> set rows. withinBounds f p)
     \<and> sorted_wrt ratingThenPrice rows \<and> length rows \<le> 50"
  proof
    assume "rows = selectFiltered table (filterConds f)"
    then show ?thesis
      using selectFiltered_props[of table "filterConds f"]
      by (simp add: holds_filterConds)
  next
    assume "rows = []"
    then show ?thesis by simp
  qed
  with run show ?thesis by simp
qed

lemma example_select:
  "selectFiltered exampleTable
     (filterConds (noFilters\<lparr>company := Some ''Samsung'', maxPrice := Some 20000\<rparr>)) =
   [examplePhone 4 ''samsung'' ''galaxy m54'' (45 / 10) 12000,
    examplePhone 1 ''samsung'' ''galaxy a55'' (42 / 10) 18000]"
  by code_simp

theorem C6_getFilteredPhones_witness:
  "getFilteredPhones (tableCatalog exampleTable)
      (noFilters\<lparr>company := Some ''Samsung'', maxPrice := Some 20000\<rparr>) ()
     = (Inr [examplePhone 4 ''samsung'' ''galaxy m54'' (45 / 10) 12000,
             examplePhone 1 ''samsung'' ''galaxy a55'' (42 / 10) 18000], ())
   \<and> withinBounds (noFilters\<lparr>company := Some ''Samsung'', maxPrice := Some 20000\<rparr>)
        (examplePhone 4 ''samsung'' ''galaxy m54'' (45 / 10) 12000)
   \<and> withinBounds (noFilters\<lparr>company := Some ''Samsung'', maxPrice := Some 20000\<rparr>)
        (examplePhone 1 ''samsung'' ''galaxy a55'' (42 / 10) 18000)
   \<and> ratingThenPrice (examplePhone 4 ''samsung'' ''galaxy m54'' (45 / 10) 12000)
        (examplePhone 1 ''samsung'' ''galaxy a55'' (42 / 10) 18000)"
proof -
  let ?f = "noFilters\<lparr>company := Some ''Samsung'', maxPrice := Some 20000\<rparr>"
  let ?rows = "[examplePhone 4 ''samsung'' ''galaxy m54'' (45 / 10) 12000,
                examplePhone 1 ''samsung'' ''galaxy a55'' (42 / 10) 18000]"
  have q: "queryPhones (tableCatalog exampleTable) (FilteredSelect (filterConds ?f)) () = (Inr ?rows, ())"
    by (simp add: tableCatalog_def returnE_def example_select)
  have r: "?rows = selectFiltered exampleTable (filterConds ?f) \<or> ?rows = []"
    by (simp add: example_select)
  show ?thesis
    using C6_getFilteredPhones[OF q r] by simp
qed

section \<open>Intent parsing\<close>

text \<open>
  Claim C9. Whenever the generation service replies, \<open>parseIntent\<close> returns an intent (it
  throws nothing of its own), and when the cleaned reply is not parseable as JSON the
  intent is the default one: task \<open>query\<close>, empty entities, empty constraints, comparison
  type \<open>single\<close>.
\<close>

theorem C9_parseIntent:
  assumes "generateContent llm (IntentPrompt query) (contextHistory history) False w = (Inr text, w')"
  shows "(\<exists>i. parseIntent llm query history w = (Inr i, w'))
     \<and> (\<forall>e. JSON_parse llm (stripFences ''json'' text) = Inl e \<longrightarrow>
           parseIntent llm query history w =
             (Inr \<lparr>task = Query,
                   entities = Some \<lparr>companyE = None, modelE = None, price_range = None, features = None\<rparr>,
                   constraints = Some \<lparr>min_price = None, max_price = None, min_ram = None,
                     max_ram = None, min_battery = None, max_battery = None, min_camera = None,
                     max_camera = None, min_storage = None, max_storage = None\<rparr>,
                   priority_features = None, comparison_type = Some Single\<rparr>, w'))"
  using assms
  by (cases "JSON_parse llm (stripFences ''json'' text)")
     (simp_all add: parseIntent_def bindE_def returnE_def defaultIntent_def noEntities_def
        noConstraints_def)

theorem C9_parseIntent_witness:
  "parseIntent (replyingService ''Sure! Here is the intent you asked for'' (\<lambda>s. Inl (Error ''SyntaxError'')))
      ''best phone'' [] ()
     = (Inr \<lparr>task = Query,
             entities = Some \<lparr>companyE = None, modelE = None, price_range = None, features = None\<rparr>,
             constraints = Some \<lparr>min_price = None, max_price = None, min_ram = None,
               max_ram = None, min_battery = None, max_battery = None, min_camera = None,
               max_camera = None, min_storage = None, max_storage = None\<rparr>,
             priority_features = None, comparison_type = Some Single\<rparr>, ())"
proof -
  let ?llm = "replyingService ''Sure! Here is the intent you asked for'' (\<lambda>s. Inl (Error ''SyntaxError''))"
  have g: "generateContent ?llm (IntentPrompt ''best phone'') (contextHistory []) False ()
            = (Inr ''Sure! Here is the intent you asked for'', ())"
    by (simp add: replyingService_def returnE_def)
  have p: "JSON_parse ?llm (stripFences ''json'' ''Sure! Here is the intent you asked for'')
            = Inl (Error ''SyntaxError'')"
    by (simp add: replyingService_def)
  show ?thesis
    using C9_parseIntent[OF g] p by blast
qed

section \<open>Generated statements\<close>

lemma startsWith_append: "startsWith s p \<Longrightarrow> startsWith (s @ t) p"
  by (induction s p rule: startsWith.induct) simp_all

lemma startsWith_self_append: "startsWith (p @ t) p"
  by (induction p) simp_all

lemma includesStr_append: "startsWith r p \<Longrightarrow> includesStr (a @ r) p"
proof (induction a)
  case Nil
  then show ?case by (cases r) (auto elim: startsWith.elims)
next
  case (Cons c a)
  then show ?case by simp
qed

lemma includes_limit_appended: "includesStr (toUpperCase (sql @ '' LIMIT 5'')) ''LIMIT''"
proof -
  have "toUpperCase (sql @ '' LIMIT 5'') = (toUpperCase sql @ '' '') @ ''LIMIT'' @ '' 5''"
    by (simp add: toUpperCase_def toUpperChar_def)
  moreover have "startsWith (''LIMIT'' @ '' 5'') ''LIMIT''"
    by (rule startsWith_self_append)
  ultimately show ?thesis
    using includesStr_append by metis
qed

text \<open>
  Claim C10, as amended. For every text the generation service returns, \<open>generateSQL\<close>
  throws exactly when the cleaned text does not begin with \<open>SELECT\<close> (in any letter case);
  otherwise it returns the cleaned text, with \<open>LIMIT 5\<close> appended when the text does not
  contain \<open>LIMIT\<close> (in any letter case), so what it returns begins with \<open>SELECT\<close> and
  contains \<open>LIMIT\<close>. A limit the text already carries is returned as it is.
\<close>

theorem C10_generateSQL:
  assumes "generateContent llm (SqlPrompt intent f) [] False w = (Inr text, w')"
  shows "(\<not> startsWith (toUpperCase (stripFences ''sql'' text)) ''SELECT'' \<longrightarrow>
            generateSQL llm intent f w = (Inl invalidSQL, w'))
     \<and> (startsWith (toUpperCase (stripFences ''sql'' text)) ''SELECT'' \<longrightarrow>
          (\<exists>out. generateSQL llm intent f w = (Inr out, w')
             \<and> out = (if includesStr (toUpperCase (stripFences ''sql'' text)) ''LIMIT''
                      then stripFences ''sql'' text
                      else stripFences ''sql'' text @ '' LIMIT 5'')
             \<and> startsWith (toUpperCase out) ''SELECT''
             \<and> includesStr (toUpperCase out) ''LIMIT''))"
proof -
  let ?sql = "stripFences ''sql'' text"
  have up: "toUpperCase (?sql @ '' LIMIT 5'') = toUpperCase ?sql @ toUpperCase '' LIMIT 5''"
    by (simp add: toUpperCase_def)
  have pre: "startsWith (toUpperCase ?sql) ''SELECT'' \<Longrightarrow>
             startsWith (toUpperCase (?sql @ '' LIMIT 5'')) ''SELECT''"
    unfolding up by (rule startsWith_append)
  show ?thesis
    using assms pre includes_limit_appended[of ?sql]
    by (simp add: generateSQL_def bindE_def returnE_def throwE_def Let_def)
qed

theorem C10_generateSQL_witness:
  "generateSQL (replyingService ''select * from phones'' (\<lambda>s. Inl Thrown)) defaultIntent noFilters ()
     = (Inr ''select * from phones LIMIT 5'', ())
   \<and> generateSQL (replyingService ''DROP TABLE phones'' (\<lambda>s. Inl Thrown)) defaultIntent noFilters ()
     = (Inl invalidSQL, ())"
proof -
  let ?a = "replyingService ''select * from phones'' (\<lambda>s. Inl Thrown)"
  let ?b = "replyingService ''DROP TABLE phones'' (\<lambda>s. Inl Thrown)"
  have ga: "generateContent ?a (SqlPrompt defaultIntent noFilters) [] False () = (Inr ''select * from phones'', ())"
    by (simp add: replyingService_def returnE_def)
  have gb: "generateContent ?b (SqlPrompt defaultIntent noFilters) [] False () = (Inr ''DROP TABLE phones'', ())"
    by (simp add: replyingService_def returnE_def)
  have sa: "stripFences ''sql'' ''select * from phones'' = ''select * from phones''"
    by code_simp
  have sb: "stripFences ''sql'' ''DROP TABLE phones'' = ''DROP TABLE phones''"
    by code_simp
  have ua: "startsWith (toUpperCase ''select * from phones'') ''SELECT''"
       "\<not> includesStr (toUpperCase ''select * from phones'') ''LIMIT''"
    by code_simp+
  have ub: "\<not> startsWith (toUpperCase ''DROP TABLE phones'') ''SELECT''"
    by code_simp
  show ?thesis
    using C10_generateSQL[OF ga] C10_generateSQL[OF gb] unfolding sa sb
    using ua ub by auto
qed

text \<open>
  Claim C10 as stated fails: a reply that begins with \<open>SELECT\<close> and carries its own
  \<open>LIMIT 1000\<close> is returned unchanged, and its cap is 1000 rows.
\<close>

theorem C10_counterexample:
  "generateSQL (replyingService ''SELECT * FROM phones LIMIT 1000'' (\<lambda>s. Inl Thrown)) defaultIntent noFilters ()
     = (Inr ''SELECT * FROM phones LIMIT 1000'', ())
   \<and> rowCap ''SELECT * FROM phones LIMIT 1000'' = Some 1000
   \<and> \<not> (1000 :: rat) \<le> 10"
  by code_simp

section \<open>Keyword fallback\<close>


text \<open>
  The second alternative of the stored pattern starts with the code unit 8218, which no
  character of a message modelled here has: it never matches.
\<close>

lemma of_char_not_8218: "(of_char c :: nat) \<noteq> 8218"
proof
  assume "(of_char c :: nat) = 8218"
  moreover have "(of_char c :: nat) mod 256 = of_char c" by (rule of_char_mod_256)
  ultimately show False by simp
qed

lemma alt2_none: "alt2 s = None"
  by (simp add: alt2_def of_char_not_8218 split: list.splits)

lemma priceMatch_first_group: "priceMatch s = Some m \<Longrightarrow> \<exists>g. m = (Some g, None)"
  by (induction s) (auto simp: alt2_none split: option.splits)






text \<open>
  Two messages outside the theorem below. A figure of four to six digits is not taken:
  \<open>samsung phones under 15000\<close> yields the company alone. A comma after one to three
  digits is taken as \<open>k\<close>: \<open>top 3, please\<close> yields the window around 3000.
\<close>

lemma fallbackFilters_four_digits:
  "fallbackFilters ''samsung phones under 15000'' = noFilters\<lparr>company := Some ''samsung''\<rparr>"
  by code_simp

lemma fallbackFilters_comma:
  "fallbackFilters ''top 3, please'' = noFilters\<lparr>minPrice := Some 0, maxPrice := Some 13000\<rparr>"
  by code_simp









section \<open>Typo correction\<close>

text \<open>The loop over an entity list yields one token per token: none is dropped.\<close>

lemma correctTokens_length:
  "correctTokens vec cat ty tokens w = (Inr tokens', w') \<Longrightarrow> length tokens' = length tokens"
proof (induction tokens arbitrary: w tokens' w')
  case Nil
  then show ?case by (simp add: returnE_def)
next
  case (Cons token rest)
  let ?pick = "\<lambda>similar :: vector_search_result list. (case similar of
                     [] \<Rightarrow> token
                   | r # _ \<Rightarrow> if score r > 7 / 10 then m_value r else token)"
  have "bindE (findSimilar vec cat token (Some ty) (7 / 10))
          (\<lambda>similar. bindE (correctTokens vec cat ty rest)
                         (\<lambda>rest'. returnE (?pick similar # rest'))) w = (Inr tokens', w')"
    using Cons.prems by (simp add: Let_def)
  from bindE_Inr[OF this] obtain similar w1 where
    r: "bindE (correctTokens vec cat ty rest) (\<lambda>rest'. returnE (?pick similar # rest')) w1
          = (Inr tokens', w')"
    by auto
  from bindE_Inr[OF r] obtain rest' w2 where c: "correctTokens vec cat ty rest w1 = (Inr rest', w2)"
    and t: "returnE (?pick similar # rest') w2 = (Inr tokens', w')"
    by auto
  from t have "tokens' = ?pick similar # rest'" by (simp add: returnE_def)
  with Cons.IH[OF c] show ?case by simp
qed

text \<open>
  Claim C7 at its boundary. With the similarity index unavailable and \<open>samsung\<close> in the
  catalog, the token \<open>samsungxyz\<close> has the top match \<open>samsung\<close> with score exactly 0.7;
  \<open>applyCorrections\<close> tests \<open>score > 0.7\<close> and keeps the token.
\<close>

theorem C7_boundary_score:
  "map_sum id (map (\<lambda>r. (m_value r, score r)))
      (fst (findSimilar downVector (tableCatalog exampleTable) ''samsungxyz'' (Some Company) (7 / 10) ()))
     = Inr [(''samsung'', 7 / 10)]
   \<and> map_sum id intentCompanies
      (fst (applyCorrections downVector (tableCatalog exampleTable)
             (defaultIntent\<lparr>entities := Some (noEntities\<lparr>companyE := Some [''samsungxyz'']\<rparr>)\<rparr>) ()))
     = Inr [''samsungxyz'']"
  by code_simp

section \<open>The orchestrator returns a response\<close>

lemma wellFormed_response: "wellFormed (response m None)" "wellFormed (response m (Some (take 5 ps)))"
  "wellFormed (response m (Some [p]))"
  by (simp_all add: wellFormed_def response_def)

lemma processTry_wellFormed:
  "ensures (processTry llm vec cat onStatus q f h) wellFormed"
  unfolding processTry_def Let_def
  by (intro ensures_bindE ensures_returnE ensures_throwE wellFormed_response
        if_split[where P = "\<lambda>m. ensures m wellFormed", THEN iffD2] conjI impI
        list.split[where P = "\<lambda>m. ensures m wellFormed", THEN iffD2] allI)


lemma processCatch_returns:
  "\<exists>r w'. processCatch cat onStatus phoneLine q e w = (Inr r, w') \<and>
     (error r \<noteq> None \<longrightarrow>
        phones r = None \<and>
        (case fallbackAttempt cat onStatus q w of (Inl x, w1) \<Rightarrow> True | (Inr ps, w1) \<Rightarrow> ps = [])) \<and>
     (case phones r of None \<Rightarrow> True | Some ps \<Rightarrow> length ps \<le> 5)"
proof -
  obtain um tm where c: "classifyError (errorMessageOf e) = (um, tm)"
    by (cases "classifyError (errorMessageOf e)")
  obtain res w1 where fa: "fallbackAttempt cat onStatus q w = (res, w1)"
    by (cases "fallbackAttempt cat onStatus q w")
  show ?thesis
  proof (cases res)
    case (Inl x)
    then show ?thesis by (simp add: processCatch_def c fa)
  next
    case (Inr ps)
    then show ?thesis by (cases "ps = []") (simp_all add: processCatch_def c fa)
  qed
qed

text \<open>
  Claim C2. For every query, filters and history, every status callback and every
  behaviour of the generation service, the vector client and the catalog store (each call
  may throw, and may answer differently each time), \<open>process\<close> returns a response; and
  when the response carries an \<open>error\<close> it carries no phones, the main pipeline threw, and
  the keyword fallback threw or found no phone.
\<close>

theorem C2_process_returns:
  "\<exists>r w'. process llm vec cat onStatus phoneLine q f h w = (Inr r, w') \<and>
     (error r \<noteq> None \<longrightarrow>
        phones r = None \<and>
        (\<exists>e w1. processTry llm vec cat onStatus q f h w = (Inl e, w1) \<and>
           (case fallbackAttempt cat onStatus q w1 of
              (Inl x, w2) \<Rightarrow> True
            | (Inr ps, w2) \<Rightarrow> ps = [])))"
proof -
  obtain res w1 where t: "processTry llm vec cat onStatus q f h w = (res, w1)"
    by (cases "processTry llm vec cat onStatus q f h w")
  show ?thesis
  proof (cases res)
    case (Inr r)
    with t have "processTry llm vec cat onStatus q f h w = (Inr r, w1)" by simp
    then have "wellFormed r" by (rule ensuresD[OF processTry_wellFormed])
    then have "error r = None" by (simp add: wellFormed_def)
    with t Inr show ?thesis by (simp add: process_def catchE_def)
  next
    case (Inl e)
    with t have "process llm vec cat onStatus phoneLine q f h w =
                 processCatch cat onStatus phoneLine q e w1"
      by (simp add: process_def catchE_def)
    with t Inl processCatch_returns[of cat onStatus phoneLine q e w1] show ?thesis
      by auto
  qed
qed

theorem C2_process_returns_witness:
  "\<exists>r w'. process (failingService ''429 Too Many Requests'') downVector failingCatalog None nameLine
              ''best phone under 20k'' noFilters [] () = (Inr r, w')
     \<and> error r = Some ''Rate limit exceeded'' \<and> phones r = None"
proof -
  have ev: "map_sum id error
      (fst (process (failingService ''429 Too Many Requests'') downVector failingCatalog None nameLine
              ''best phone under 20k'' noFilters [] ())) = Inr (Some ''Rate limit exceeded'')"
    by code_simp
  show ?thesis
    using C2_process_returns[of "failingService ''429 Too Many Requests''" downVector failingCatalog
        None nameLine "''best phone under 20k''" noFilters "[]" "()"] ev
    by auto
qed

section \<open>The phones of a response\<close>

lemma uniqueLoop_length:
  "length unique < limit \<Longrightarrow> length (uniqueLoop limit seen unique ps) \<le> limit"
  by (induction ps arbitrary: seen unique) auto

lemma uniqueLoop_distinct:
  "distinct (map phoneKey unique) \<Longrightarrow> seen = phoneKey ` set unique \<Longrightarrow>
   distinct (map phoneKey (uniqueLoop limit seen unique ps))"
proof (induction ps arbitrary: seen unique)
  case Nil
  then show ?case by simp
next
  case (Cons p ps)
  show ?case
  proof (cases "phoneKey p \<in> seen")
    case True
    then show ?thesis using Cons by simp
  next
    case False
    then have d: "distinct (map phoneKey (unique @ [p]))"
      using Cons.prems by auto
    have s: "insert (phoneKey p) seen = phoneKey ` set (unique @ [p])"
      using Cons.prems by auto
    show ?thesis
      using False d Cons.IH[OF d s] by simp
  qed
qed

lemma distinct_keys_pairs:
  assumes "distinct (map phoneKey xs)"
  shows "distinct (map (\<lambda>p. (company_name p, model_name p)) xs)"
proof -
  have d: "distinct xs" and i: "inj_on phoneKey (set xs)"
    using assms by (simp_all add: distinct_map)
  have "inj_on (\<lambda>p. (company_name p, model_name p)) (set xs)"
  proof (rule inj_onI)
    fix x y
    assume x: "x \<in> set xs" and y: "y \<in> set xs"
      and e: "(company_name x, model_name x) = (company_name y, model_name y)"
    from e have k: "phoneKey x = phoneKey y" by (simp add: phoneKey_def)
    from i k x y show "x = y" by (rule inj_onD)
  qed
  with d show ?thesis by (simp add: distinct_map)
qed

lemma getUniquePhones_props:
  "length (getUniquePhones xs 4) \<le> 4 \<and>
   distinct (map (\<lambda>p. (company_name p, model_name p)) (getUniquePhones xs 4))"
proof -
  have "length (uniqueLoop 4 {} [] xs) \<le> 4" by (rule uniqueLoop_length) simp
  moreover have "distinct (map phoneKey (uniqueLoop 4 {} [] xs))"
    by (rule uniqueLoop_distinct) simp_all
  ultimately show ?thesis
    unfolding getUniquePhones_def by (blast intro: distinct_keys_pairs)
qed

lemma process_phones_length:
  assumes "process llm vec cat onStatus phoneLine q f h w = (Inr r, w')"
    and "phones r = Some ps"
  shows "length ps \<le> 5"
proof -
  obtain res w1 where t: "processTry llm vec cat onStatus q f h w = (res, w1)"
    by (cases "processTry llm vec cat onStatus q f h w")
  show ?thesis
  proof (cases res)
    case (Inr r0)
    with t have t': "processTry llm vec cat onStatus q f h w = (Inr r0, w1)" by simp
    then have "wellFormed r0" by (rule ensuresD[OF processTry_wellFormed])
    moreover have "r0 = r" using t' assms(1) by (simp add: process_def catchE_def)
    ultimately show ?thesis using assms(2) by (simp add: wellFormed_def)
  next
    case (Inl e)
    with t have "process llm vec cat onStatus phoneLine q f h w =
                 processCatch cat onStatus phoneLine q e w1"
      by (simp add: process_def catchE_def)
    moreover obtain r1 w2 where "processCatch cat onStatus phoneLine q e w1 = (Inr r1, w2)"
      and "case phones r1 of None \<Rightarrow> True | Some ps \<Rightarrow> length ps \<le> 5"
      using processCatch_returns[of cat onStatus phoneLine q e w1] by blast
    ultimately have "r1 = r" and "case phones r1 of None \<Rightarrow> True | Some ps \<Rightarrow> length ps \<le> 5"
      using assms(1) by simp_all
    with assms(2) show ?thesis by simp
  qed
qed

text \<open>
  Claim C1, as amended. Every \<open>phones\<close> array that \<open>process\<close> returns has at most 5
  entries. De-duplication by brand and model is applied to the phones the summary is
  written about (\<open>getUniquePhones\<close> with limit 4: at most 4 phones, no two with the same
  brand and model), not to the array returned.
\<close>

theorem C1_process_phones:
  "(\<forall>r w' ps. process llm vec cat onStatus phoneLine q f h w = (Inr r, w') \<and> phones r = Some ps
       \<longrightarrow> length ps \<le> 5)
   \<and> length (getUniquePhones xs 4) \<le> 4
   \<and> distinct (map (\<lambda>p. (company_name p, model_name p)) (getUniquePhones xs 4))"
  using process_phones_length[of llm vec cat onStatus phoneLine q f h w]
    getUniquePhones_props[of xs]
  by blast

theorem C1_process_phones_witness:
  "process (replyingService ''These are the phones.'' (\<lambda>s. Inl Thrown)) downVector failingCatalog None nameLine
      ''tell me more'' noFilters [assistantTurn (exampleTable @ exampleTable)] ()
     = (Inr (response ''These are the phones.'' (Some (take 5 (exampleTable @ exampleTable)))), ())
   \<and> length (take 5 (exampleTable @ exampleTable)) \<le> 5"
proof -
  have ev: "process (replyingService ''These are the phones.'' (\<lambda>s. Inl Thrown)) downVector failingCatalog None nameLine
      ''tell me more'' noFilters [assistantTurn (exampleTable @ exampleTable)] ()
     = (Inr (response ''These are the phones.'' (Some (take 5 (exampleTable @ exampleTable)))), ())"
    by code_simp
  have ph: "phones (response ''These are the phones.'' (Some (take 5 (exampleTable @ exampleTable))))
            = Some (take 5 (exampleTable @ exampleTable))"
    by (simp add: response_def)
  show ?thesis
    using C1_process_phones[of "replyingService ''These are the phones.'' (\<lambda>s. Inl Thrown)" downVector
        failingCatalog None nameLine "''tell me more''" noFilters
        "[assistantTurn (exampleTable @ exampleTable)]" "()" "[]"] ev ph
    by blast
qed

text \<open>
  Claim C1 as stated fails: a follow-up question on a turn that carried the same phone
  twice returns that phone twice.
\<close>

theorem C1_counterexample:
  "map_sum id phones
     (fst (process (replyingService ''These are the phones.'' (\<lambda>s. Inl Thrown)) downVector failingCatalog None
             nameLine ''tell me more'' noFilters
             [assistantTurn [examplePhone 1 ''samsung'' ''galaxy a55'' (42 / 10) 18000,
                             examplePhone 1 ''samsung'' ''galaxy a55'' (42 / 10) 18000]] ()))
     = Inr (Some [examplePhone 1 ''samsung'' ''galaxy a55'' (42 / 10) 18000,
                  examplePhone 1 ''samsung'' ''galaxy a55'' (42 / 10) 18000])
   \<and> \<not> distinct (map (\<lambda>p. (company_name p, model_name p))
          [examplePhone 1 ''samsung'' ''galaxy a55'' (42 / 10) 18000,
           examplePhone 1 ''samsung'' ''galaxy a55'' (42 / 10) 18000])"
  by code_simp

section \<open>Follow-up questions\<close>

lemma lastPhones_skip:
  "list_all carriesNoPhone ts \<Longrightarrow> lastPhones (ts @ rest) = lastPhones rest"
  by (induction ts) (auto simp: carriesNoPhone_def)

lemma getPhonesFromHistory_recent:
  assumes "phonesH turn = Some ps" "ps \<noteq> []" "list_all carriesNoPhone later"
  shows "getPhonesFromHistory (earlier @ turn # later) = ps"
proof -
  have "list_all carriesNoPhone (rev later)" using assms(3) by (simp add: list_all_iff)
  then have "lastPhones (rev later @ turn # rev earlier) = lastPhones (turn # rev earlier)"
    by (rule lastPhones_skip)
  then show ?thesis using assms(1,2) by (simp add: getPhonesFromHistory_def)
qed

lemma sortByRating_head:
  assumes "sortByRating ps = best # rest"
  shows "best \<in> set ps \<and> (\<forall>p \<in> set ps. user_rating p \<le> user_rating best)"
proof -
  have s: "set (best # rest) = set ps"
    using assms[symmetric] by (simp add: sortByRating_def)
  have "sorted (map (\<lambda>p. - user_rating p) (sortByRating ps))"
    unfolding sortByRating_def by (rule sorted_sort_key)
  then have "\<forall>p \<in> set rest. - user_rating best \<le> - user_rating p"
    unfolding assms by simp
  then have "\<forall>p \<in> set (best # rest). user_rating p \<le> user_rating best" by simp
  with s show ?thesis by auto
qed

lemma sortByRating_nonempty: "ps \<noteq> [] \<Longrightarrow> \<exists>best rest. sortByRating ps = best # rest"
proof -
  assume "ps \<noteq> []"
  then have "length (sortByRating ps) \<noteq> 0" by (simp add: sortByRating_def)
  then show ?thesis by (cases "sortByRating ps") auto
qed

lemma processTry_followUp:
  assumes "isFollowUpQuery q" "getPhonesFromHistory h = ps" "ps \<noteq> []"
    and "notify onStatus ''Understanding your query...'' w = (Inr (), w1)"
  shows "processTry llm vec cat onStatus q f h w =
     (if isBestPhoneQuery q \<and> length ps > 1
      then (case sortByRating ps of
              bestPhone # _ \<Rightarrow>
                bindE (summarize llm q [bestPhone] h)
                  (\<lambda>summary. returnE (response summary (Some [bestPhone])))
            | [] \<Rightarrow> throwE (Error ''TypeError''))
      else bindE (summarize llm q ps h)
             (\<lambda>summary. returnE (response summary (Some (take 5 ps))))) w1"
  using assms by (simp add: processTry_def Let_def bindE_def)

lemma process_of_try:
  "processTry llm vec cat onStatus q f h w = (Inr r, w') \<Longrightarrow>
   process llm vec cat onStatus phoneLine q f h w = (Inr r, w')"
  by (simp add: process_def catchE_def)

text \<open>
  Claim C3, as amended. Let the message contain a follow-up phrase, let \<open>turn\<close> be the most
  recent turn of the history that carries phones, \<open>ps\<close> its phones, and let the status
  callback return. If the message matches no phrase of the "best" list, or \<open>ps\<close> is a single
  phone, then whenever the summary of \<open>ps\<close> is generated, \<open>process\<close> returns that summary
  with the first five phones of \<open>ps\<close>. If the message matches the "best" list and \<open>ps\<close> has
  more than one phone, there is a phone of \<open>ps\<close> of highest rating such that whenever its
  summary is generated, \<open>process\<close> returns that summary with this phone alone. In both
  cases the response is the same for every vector client and every catalog store: no
  retrieval path takes part.
\<close>

theorem C3_followUp:
  assumes "isFollowUpQuery q"
    and "h = earlier @ turn # later"
    and "phonesH turn = Some ps" and "ps \<noteq> []"
    and "list_all carriesNoPhone later"
    and "notify onStatus ''Understanding your query...'' w = (Inr (), w1)"
  shows "(\<not> (isBestPhoneQuery q \<and> length ps > 1) \<longrightarrow>
           (\<forall>s w2. summarize llm q ps h w1 = (Inr s, w2) \<longrightarrow>
              (\<forall>vec cat. process llm vec cat onStatus phoneLine q f h w =
                 (Inr (response s (Some (take 5 ps))), w2))))
     \<and> (isBestPhoneQuery q \<and> length ps > 1 \<longrightarrow>
           (\<exists>best. best \<in> set ps \<and> (\<forall>p \<in> set ps. user_rating p \<le> user_rating best) \<and>
              (\<forall>s w2. summarize llm q [best] h w1 = (Inr s, w2) \<longrightarrow>
                 (\<forall>vec cat. process llm vec cat onStatus phoneLine q f h w =
                    (Inr (response s (Some [best])), w2)))))"
proof -
  have hist: "getPhonesFromHistory h = ps"
    unfolding assms(2) using assms(3,4,5) by (rule getPhonesFromHistory_recent)
  note body = processTry_followUp[OF assms(1) hist assms(4) assms(6)]
  have plain: "\<not> (isBestPhoneQuery q \<and> length ps > 1) \<Longrightarrow>
      summarize llm q ps h w1 = (Inr s, w2) \<Longrightarrow>
      process llm vec cat onStatus phoneLine q f h w = (Inr (response s (Some (take 5 ps))), w2)"
    for s w2 vec cat
    by (rule process_of_try) (auto simp add: body bindE_def returnE_def)
  obtain best rest where sb: "sortByRating ps = best # rest"
    using sortByRating_nonempty[OF assms(4)] by blast
  have top: "best \<in> set ps \<and> (\<forall>p \<in> set ps. user_rating p \<le> user_rating best)"
    using sb by (rule sortByRating_head)
  have bestcase: "isBestPhoneQuery q \<and> length ps > 1 \<Longrightarrow>
      summarize llm q [best] h w1 = (Inr s, w2) \<Longrightarrow>
      process llm vec cat onStatus phoneLine q f h w = (Inr (response s (Some [best])), w2)"
    for s w2 vec cat
    by (rule process_of_try) (auto simp add: body sb bindE_def returnE_def)
  show ?thesis using plain top bestcase by blast
qed


lemma summarize_replying_one:
  "summarize (replyingService t parse) q [p] h () = (Inr (trim t), ())"
  by (simp add: summarize_def getUniquePhones_def replyingService_def bindE_def returnE_def)

theorem C3_followUp_witness:
  "process (replyingService ''ok'' (\<lambda>s. Inl Thrown)) downVector failingCatalog None nameLine
      ''tell me more'' noFilters
      [assistantTurn [examplePhone 1 ''samsung'' ''galaxy a55'' (42 / 10) 18000,
                      examplePhone 2 ''samsung'' ''galaxy s24'' (45 / 10) 25000]] ()
     = (Inr (response ''ok''
               (Some (take 5 [examplePhone 1 ''samsung'' ''galaxy a55'' (42 / 10) 18000,
                              examplePhone 2 ''samsung'' ''galaxy s24'' (45 / 10) 25000]))), ())
   \<and> (\<exists>best. best \<in> set [examplePhone 1 ''samsung'' ''galaxy a55'' (42 / 10) 18000,
                            examplePhone 2 ''samsung'' ''galaxy s24'' (45 / 10) 25000]
        \<and> process (replyingService ''ok'' (\<lambda>s. Inl Thrown)) downVector failingCatalog None nameLine
            ''which is best'' noFilters
            [assistantTurn [examplePhone 1 ''samsung'' ''galaxy a55'' (42 / 10) 18000,
                            examplePhone 2 ''samsung'' ''galaxy s24'' (45 / 10) 25000]] ()
           = (Inr (response ''ok'' (Some [best])), ()))"
proof -
  let ?llm = "replyingService ''ok'' (\<lambda>s. Inl Thrown)"
  let ?ps = "[examplePhone 1 ''samsung'' ''galaxy a55'' (42 / 10) 18000,
              examplePhone 2 ''samsung'' ''galaxy s24'' (45 / 10) 25000]"
  let ?h = "[assistantTurn ?ps]"
  have fu: "isFollowUpQuery ''tell me more''" "isFollowUpQuery ''which is best''"
    and best: "\<not> isBestPhoneQuery ''tell me more''" "isBestPhoneQuery ''which is best''"
    by code_simp+
  have h: "?h = [] @ assistantTurn ?ps # []" by simp
  have t: "phonesH (assistantTurn ?ps) = Some ?ps" by (simp add: assistantTurn_def)
  have ne: "?ps \<noteq> []" by simp
  have la: "list_all carriesNoPhone []" by simp
  have st: "notify None ''Understanding your query...'' () = (Inr (), ())"
    by (simp add: notify_def returnE_def)
  have tr: "trim ''ok'' = ''ok''" by code_simp
  have s1: "summarize ?llm ''tell me more'' ?ps ?h () = (Inr ''ok'', ())"
    by code_simp
  have s2: "summarize ?llm ''which is best'' [b] ?h () = (Inr ''ok'', ())" for b
    using summarize_replying_one[of "''ok''" _ "''which is best''" b ?h] tr by simp
  have len: "length ?ps > 1" by simp
  note a = C3_followUp[OF fu(1) h t ne la st, of ?llm nameLine noFilters]
  note b = C3_followUp[OF fu(2) h t ne la st, of ?llm nameLine noFilters]
  from a best(1) s1 have first:
    "process ?llm downVector failingCatalog None nameLine ''tell me more'' noFilters ?h ()
       = (Inr (response ''ok'' (Some (take 5 ?ps))), ())"
    by blast
  from b best(2) len obtain bst where "bst \<in> set ?ps"
    and "\<forall>s w2. summarize ?llm ''which is best'' [bst] ?h () = (Inr s, w2) \<longrightarrow>
           (\<forall>vec cat. process ?llm vec cat None nameLine ''which is best'' noFilters ?h ()
              = (Inr (response s (Some [bst])), w2))"
    by blast
  with s2[of bst] have second: "bst \<in> set ?ps \<and>
      process ?llm downVector failingCatalog None nameLine ''which is best'' noFilters ?h ()
        = (Inr (response ''ok'' (Some [bst])), ())"
    by blast
  from first second show ?thesis by blast
qed

text \<open>
  Claim C3 as stated fails: when the generation service throws during the summary, the
  follow-up falls into the keyword fallback, which queries the catalog, and the response
  carries the catalog's phones, not the phone of the history.
\<close>

theorem C3_counterexample:
  "isFollowUpQuery ''tell me more''
   \<and> getPhonesFromHistory [assistantTurn [examplePhone 9 ''nothing'' ''phone 2a'' 4 20000]]
       = [examplePhone 9 ''nothing'' ''phone 2a'' 4 20000]
   \<and> map_sum id phones
       (fst (process (failingService ''timeout'') downVector (tableCatalog exampleTable) None nameLine
               ''tell me more'' noFilters
               [assistantTurn [examplePhone 9 ''nothing'' ''phone 2a'' 4 20000]] ()))
       = Inr (Some [examplePhone 3 ''apple'' ''iphone 15'' (48 / 10) 15000,
                    examplePhone 4 ''samsung'' ''galaxy m54'' (45 / 10) 12000,
                    examplePhone 2 ''samsung'' ''galaxy s24'' (45 / 10) 25000,
                    examplePhone 1 ''samsung'' ''galaxy a55'' (42 / 10) 18000])"
  by code_simp

end
